theory Spec2Isabelle
  imports Main "HOL-Library.Sublist" "HOL-Library.Multiset"
begin

section \<open>Page window calculator (OrderPagination.tsx, getPageNumbers)\<close>

text \<open>
  The array \<open>pages\<close> of the source has the element type \<open>number | string\<close>; the only
  string ever pushed is the three-dot marker. JavaScript numbers are modelled as
  unbounded integers: page counts and page indices are whole numbers far below
  \<open>2^53\<close>.
\<close>

datatype page_entry = PageNum int | Ellipsis

text \<open>
  The loop \<^verbatim>\<open>for (let i = lo; i <= hi; i++) pages.push(i)\<close>, with the array
  passed through as an accumulator.
\<close>

function push_range :: "int \<Rightarrow> int \<Rightarrow> page_entry list \<Rightarrow> page_entry list" where
  "push_range i hi pages =
     (if i \<le> hi then push_range (i + 1) hi (pages @ [PageNum i]) else pages)"
  by pat_completeness auto
termination
  by (relation "measure (\<lambda>(i, hi, pages). nat (hi + 1 - i))") auto

definition maxVisible :: int where
  "maxVisible = 5"

definition getPageNumbers :: "int \<Rightarrow> int \<Rightarrow> page_entry list" where
  "getPageNumbers currentPage totalPages =
     (if totalPages \<le> maxVisible then push_range 1 totalPages []
      else if currentPage \<le> 3 then
        (push_range 1 4 []) @ [Ellipsis] @ [PageNum totalPages]
      else if currentPage \<ge> totalPages - 2 then
        push_range (totalPages - 3) totalPages ([PageNum 1] @ [Ellipsis])
      else
        (push_range (currentPage - 1) (currentPage + 1) ([PageNum 1] @ [Ellipsis]))
          @ [Ellipsis] @ [PageNum totalPages])"

text \<open>The concrete page numbers of a sequence, in order, ellipsis markers dropped.\<close>

fun concretePages :: "page_entry list \<Rightarrow> int list" where
  "concretePages [] = []"
| "concretePages (PageNum n # es) = n # concretePages es"
| "concretePages (Ellipsis # es) = concretePages es"

text \<open>
  The reference sequence, written after the specification's four regimes
  (all pages; near start; near end; middle).
\<close>

definition pageWindowSpec :: "int \<Rightarrow> int \<Rightarrow> page_entry list" where
  "pageWindowSpec C T =
     (if T \<le> 5 then map PageNum [1..T]
      else if C \<le> 3 then
        [PageNum 1, PageNum 2, PageNum 3, PageNum 4, Ellipsis, PageNum T]
      else if C \<ge> T - 2 then
        [PageNum 1, Ellipsis, PageNum (T - 3), PageNum (T - 2), PageNum (T - 1), PageNum T]
      else
        [PageNum 1, Ellipsis, PageNum (C - 1), PageNum C, PageNum (C + 1), Ellipsis, PageNum T])"

section \<open>Data model (types/index.ts)\<close>

text \<open>
  The TypeScript interfaces become records. Field names carry a prefix per record
  (\<open>c_\<close> Client, \<open>u_\<close> User, \<open>o_\<close> Order, \<open>f_\<close> OrderFilters, \<open>resp_\<close>
  OrderListResponse, \<open>pg_\<close> pagination, \<open>st_\<close> OrderListState), since the interfaces
  share the names \<open>id\<close>, \<open>orders\<close>, \<open>page\<close>, \<open>page_size\<close> and \<open>total\<close>.
  A field of type \<open>T | null\<close> and an optional field \<open>x?: T\<close> are \<open>T option\<close>.
  Numbers are integers. Text is a list of characters; text outside ASCII is given by
  its UTF-8 bytes.
\<close>

definition utf8 :: "nat list \<Rightarrow> string" where
  "utf8 bs = map char_of bs"

text \<open>
  OrderStatus is a union of four string literals (in Russian: new, in progress, ready,
  delivered), client_type a union of three (customer, recipient, both).
\<close>

datatype OrderStatus = NEW | IN_PROGRESS | READY | DELIVERED

datatype ClientType = Zakazchik | Poluchatel | Oba

record Client =
  c_id :: int
  c_name :: "string option"
  c_phone :: string
  c_email :: "string option"
  c_address :: "string option"
  c_client_type :: ClientType
  c_notes :: "string option"
  c_created_at :: string

record User =
  u_id :: int
  u_username :: string
  u_email :: string
  u_city :: "string option"
  u_position :: "string option"

record Order =
  o_id :: int
  o_client_id :: int
  o_recipient_id :: int
  o_executor_id :: "int option"
  o_status :: OrderStatus
  o_delivery_date :: string
  o_delivery_address :: string
  o_total_price :: "int option"
  o_comment :: "string option"
  o_created_at :: string
  o_client :: Client
  o_recipient :: Client
  o_executor :: "User option"

record OrderListResponse =
  resp_orders :: "Order list"
  resp_total :: int
  resp_page :: int
  resp_page_size :: int

record OrderFilters =
  f_status :: "OrderStatus option"
  f_client_phone :: "string option"
  f_executor_id :: "int option"
  f_date_from :: "string option"
  f_date_to :: "string option"
  f_min_price :: "int option"
  f_max_price :: "int option"

record Pagination =
  pg_page :: int
  pg_page_size :: int
  pg_total :: int

record OrderListState =
  st_orders :: "Order list"
  st_loading :: bool
  st_error :: "string option"
  st_filters :: OrderFilters
  st_pagination :: Pagination

text \<open>The empty filter object \<open>{}\<close>.\<close>

definition emptyFilters :: OrderFilters where
  "emptyFilters =
     \<lparr>f_status = None, f_client_phone = None, f_executor_id = None,
      f_date_from = None, f_date_to = None, f_min_price = None, f_max_price = None\<rparr>"

section \<open>Mock data and the mock order query (mockApiCall)\<close>

definition mockClient0 :: Client where
  "mockClient0 =
     \<lparr>c_id = 1,
      c_name = Some (utf8 [208, 144, 208, 189, 208, 189, 208, 176, 32, 208, 159, 208, 181, 209, 130, 209, 128, 208, 190, 208, 178, 208, 176]),
      c_phone = ''+77012345678'',
      c_email = Some ''anna@example.com'',
      c_address = Some (utf8 [209, 131, 208, 187, 46, 32, 208, 144, 208, 177, 208, 176, 209, 143, 32, 49, 53, 48, 44, 32, 208, 186, 208, 178, 46, 32, 50, 53]),
      c_client_type = Zakazchik,
      c_notes = None,
      c_created_at = ''2024-01-15T10:30:00Z''\<rparr>"

definition mockClient1 :: Client where
  "mockClient1 =
     \<lparr>c_id = 2,
      c_name = Some (utf8 [208, 156, 208, 176, 209, 128, 208, 184, 209, 143, 32, 208, 152, 208, 178, 208, 176, 208, 189, 208, 190, 208, 178, 208, 176]),
      c_phone = ''+77087654321'',
      c_email = Some ''maria@example.com'',
      c_address = Some (utf8 [208, 191, 209, 128, 46, 32, 208, 148, 208, 190, 209, 129, 209, 130, 209, 139, 208, 186, 32, 50, 52, 48, 44, 32, 208, 190, 209, 132, 208, 184, 209, 129, 32, 49, 53]),
      c_client_type = Poluchatel,
      c_notes = None,
      c_created_at = ''2024-01-20T14:15:00Z''\<rparr>"

definition mockClient2 :: Client where
  "mockClient2 =
     \<lparr>c_id = 3,
      c_name = Some (utf8 [208, 149, 208, 187, 208, 181, 208, 189, 208, 176, 32, 208, 161, 208, 188, 208, 184, 209, 128, 208, 189, 208, 190, 208, 178, 208, 176]),
      c_phone = ''+77051234567'',
      c_email = None,
      c_address = Some (utf8 [209, 131, 208, 187, 46, 32, 208, 157, 208, 176, 208, 183, 208, 176, 209, 128, 208, 177, 208, 176, 208, 181, 208, 178, 208, 176, 32, 55, 53]),
      c_client_type = Oba,
      c_notes = Some (utf8 [208, 159, 208, 190, 209, 129, 209, 130, 208, 190, 209, 143, 208, 189, 208, 189, 209, 139, 208, 185, 32, 208, 186, 208, 187, 208, 184, 208, 181, 208, 189, 209, 130]),
      c_created_at = ''2024-02-01T09:00:00Z''\<rparr>"

definition mockClients :: "Client list" where
  "mockClients = [mockClient0, mockClient1, mockClient2]"

definition mockUser0 :: User where
  "mockUser0 =
     \<lparr>u_id = 1,
      u_username = ''aidana_flores'',
      u_email = ''aidana@flores.kz'',
      u_city = Some (utf8 [208, 144, 208, 187, 208, 188, 208, 176, 209, 130, 209, 139]),
      u_position = Some (utf8 [208, 164, 208, 187, 208, 190, 209, 128, 208, 184, 209, 129, 209, 130])\<rparr>"

definition mockUser1 :: User where
  "mockUser1 =
     \<lparr>u_id = 2,
      u_username = ''dmitry_manager'',
      u_email = ''dmitry@flores.kz'',
      u_city = Some (utf8 [208, 144, 208, 187, 208, 188, 208, 176, 209, 130, 209, 139]),
      u_position = Some (utf8 [208, 156, 208, 181, 208, 189, 208, 181, 208, 180, 208, 182, 208, 181, 209, 128])\<rparr>"

definition mockUser2 :: User where
  "mockUser2 =
     \<lparr>u_id = 3,
      u_username = ''sara_astana'',
      u_email = ''sara@flores.kz'',
      u_city = Some (utf8 [208, 144, 209, 129, 209, 130, 208, 176, 208, 189, 208, 176]),
      u_position = Some (utf8 [208, 164, 208, 187, 208, 190, 209, 128, 208, 184, 209, 129, 209, 130])\<rparr>"

definition mockUsers :: "User list" where
  "mockUsers = [mockUser0, mockUser1, mockUser2]"

definition mockOrder0 :: Order where
  "mockOrder0 =
     \<lparr>o_id = 1,
      o_client_id = 1,
      o_recipient_id = 2,
      o_executor_id = Some 1,
      o_status = NEW,
      o_delivery_date = ''2024-12-25T00:00:00Z'',
      o_delivery_address = utf8 [208, 191, 209, 128, 46, 32, 208, 148, 208, 190, 209, 129, 209, 130, 209, 139, 208, 186, 32, 50, 52, 48, 44, 32, 208, 190, 209, 132, 208, 184, 209, 129, 32, 49, 53],
      o_total_price = Some 15000,
      o_comment = Some (utf8 [208, 145, 209, 131, 208, 186, 208, 181, 209, 130, 32, 208, 184, 208, 183, 32, 209, 128, 208, 190, 208, 183, 32, 208, 184, 32, 208, 187, 208, 184, 208, 187, 208, 184, 208, 185]),
      o_created_at = ''2024-12-20T10:30:00Z'',
      o_client = mockClient0,
      o_recipient = mockClient1,
      o_executor = Some mockUser0\<rparr>"

definition mockOrder1 :: Order where
  "mockOrder1 =
     \<lparr>o_id = 2,
      o_client_id = 2,
      o_recipient_id = 3,
      o_executor_id = None,
      o_status = IN_PROGRESS,
      o_delivery_date = ''2024-12-26T00:00:00Z'',
      o_delivery_address = utf8 [209, 131, 208, 187, 46, 32, 208, 157, 208, 176, 208, 183, 208, 176, 209, 128, 208, 177, 208, 176, 208, 181, 208, 178, 208, 176, 32, 55, 53],
      o_total_price = Some 25000,
      o_comment = None,
      o_created_at = ''2024-12-19T15:45:00Z'',
      o_client = mockClient1,
      o_recipient = mockClient2,
      o_executor = None\<rparr>"

definition mockOrder2 :: Order where
  "mockOrder2 =
     \<lparr>o_id = 3,
      o_client_id = 3,
      o_recipient_id = 3,
      o_executor_id = Some 2,
      o_status = READY,
      o_delivery_date = ''2024-12-24T00:00:00Z'',
      o_delivery_address = utf8 [209, 131, 208, 187, 46, 32, 208, 157, 208, 176, 208, 183, 208, 176, 209, 128, 208, 177, 208, 176, 208, 181, 208, 178, 208, 176, 32, 55, 53],
      o_total_price = Some 8000,
      o_comment = Some (utf8 [208, 157, 208, 181, 208, 177, 208, 190, 208, 187, 209, 140, 209, 136, 208, 176, 209, 143, 32, 208, 186, 208, 190, 208, 188, 208, 191, 208, 190, 208, 183, 208, 184, 209, 134, 208, 184, 209, 143]),
      o_created_at = ''2024-12-18T12:00:00Z'',
      o_client = mockClient2,
      o_recipient = mockClient2,
      o_executor = Some mockUser1\<rparr>"

definition mockOrder3 :: Order where
  "mockOrder3 =
     \<lparr>o_id = 4,
      o_client_id = 1,
      o_recipient_id = 1,
      o_executor_id = Some 3,
      o_status = DELIVERED,
      o_delivery_date = ''2024-12-23T00:00:00Z'',
      o_delivery_address = utf8 [209, 131, 208, 187, 46, 32, 208, 144, 208, 177, 208, 176, 209, 143, 32, 49, 53, 48, 44, 32, 208, 186, 208, 178, 46, 32, 50, 53],
      o_total_price = Some 12000,
      o_comment = Some (utf8 [208, 145, 209, 131, 208, 186, 208, 181, 209, 130, 32, 208, 189, 208, 176, 32, 208, 180, 208, 181, 208, 189, 209, 140, 32, 209, 128, 208, 190, 208, 182, 208, 180, 208, 181, 208, 189, 208, 184, 209, 143]),
      o_created_at = ''2024-12-17T09:15:00Z'',
      o_client = mockClient0,
      o_recipient = mockClient0,
      o_executor = Some mockUser2\<rparr>"

definition mockOrders :: "Order list" where
  "mockOrders = [mockOrder0, mockOrder1, mockOrder2, mockOrder3]"

text \<open>\<^verbatim>\<open>text.includes(search)\<close>: the search string occurs contiguously in the text.\<close>

fun str_includes :: "'a list \<Rightarrow> 'a list \<Rightarrow> bool" where
  "str_includes [] search = (search = [])"
| "str_includes (c # cs) search = (prefix search (c # cs) \<or> str_includes cs search)"

text \<open>
  Dates. \<^verbatim>\<open>new Date(s)\<close> is a function of the JavaScript runtime, not of the
  repository: it is the parameter \<open>D\<close> of the model, giving the time value in
  milliseconds, or None for an invalid date (time value NaN). Every comparison with
  NaN is false, and a comparator result of NaN counts as 0 in \<^verbatim>\<open>sort\<close>.
\<close>

type_synonym date_parser = "string \<Rightarrow> int option"

definition date_ge :: "date_parser \<Rightarrow> string \<Rightarrow> string \<Rightarrow> bool" where
  "date_ge D a b = (case (D a, D b) of (Some x, Some y) \<Rightarrow> x \<ge> y | _ \<Rightarrow> False)"

definition date_le :: "date_parser \<Rightarrow> string \<Rightarrow> string \<Rightarrow> bool" where
  "date_le D a b = (case (D a, D b) of (Some x, Some y) \<Rightarrow> x \<le> y | _ \<Rightarrow> False)"

text \<open>The comparator \<^verbatim>\<open>(a, b) => time(b.created_at) - time(a.created_at)\<close>.\<close>

definition byCreatedDesc :: "date_parser \<Rightarrow> Order \<Rightarrow> Order \<Rightarrow> int" where
  "byCreatedDesc D a b =
     (case (D (o_created_at b), D (o_created_at a)) of
        (Some tb, Some ta) \<Rightarrow> tb - ta
      | _ \<Rightarrow> 0)"

text \<open>
  \<^verbatim>\<open>Array.prototype.sort(cmp)\<close> is stable; it is modelled as a stable insertion
  sort (an element goes before the first one it does not compare greater than).
  When every compared date parses, the comparator is a consistent order and the
  stable result is unique: the model gives it. When a date does not parse, the
  comparator yields NaN; the engine then still returns a permutation of the array,
  but in an order that the language leaves to the implementation, and the order of
  the model is only one of the possible ones. What is proved of the order of a
  result therefore assumes that the creation dates parse; what is proved of its
  members holds in every case.
\<close>

fun insert_by :: "('a \<Rightarrow> 'a \<Rightarrow> int) \<Rightarrow> 'a \<Rightarrow> 'a list \<Rightarrow> 'a list" where
  "insert_by cmp x [] = [x]"
| "insert_by cmp x (y # ys) =
     (if cmp x y \<le> 0 then x # y # ys else y # insert_by cmp x ys)"

definition sort_by :: "('a \<Rightarrow> 'a \<Rightarrow> int) \<Rightarrow> 'a list \<Rightarrow> 'a list" where
  "sort_by cmp xs = foldr (insert_by cmp) xs []"

text \<open>
  \<^verbatim>\<open>xs.slice(start, end)\<close> on integer arguments: a negative index counts from
  the end, both indices are clamped to the array, and an empty range gives \<open>[]\<close>.
\<close>

definition js_slice :: "'a list \<Rightarrow> int \<Rightarrow> int \<Rightarrow> 'a list" where
  "js_slice xs startIndex endIndex =
     (let len = int (length xs);
          k = (if startIndex < 0 then max (len + startIndex) 0 else min startIndex len);
          final = (if endIndex < 0 then max (len + endIndex) 0 else min endIndex len)
      in take (nat (final - k)) (drop (nat k) xs))"

text \<open>
  The price tests \<^verbatim>\<open>order.total_price && order.total_price >= filters.min_price\<close>
  and the same with \<^verbatim>\<open><=\<close>: a null price and a price of 0 are falsy.
\<close>

definition price_at_least :: "int \<Rightarrow> Order \<Rightarrow> bool" where
  "price_at_least lo order =
     (case o_total_price order of None \<Rightarrow> False | Some p \<Rightarrow> p \<noteq> 0 \<and> p \<ge> lo)"

definition price_at_most :: "int \<Rightarrow> Order \<Rightarrow> bool" where
  "price_at_most hi order =
     (case o_total_price order of None \<Rightarrow> False | Some p \<Rightarrow> p \<noteq> 0 \<and> p \<le> hi)"

definition phone_matches :: "string \<Rightarrow> Order \<Rightarrow> bool" where
  "phone_matches search order =
     (str_includes (c_phone (o_client order)) search
      \<or> str_includes (c_phone (o_recipient order)) search)"

text \<open>
  The seven filter steps of mockApiCall, in the source's order. Each runs only when
  its filter field is truthy: present and, for a string, not empty, for a number,
  not 0 (every status literal is a non-empty string).
\<close>

definition applyFilters :: "date_parser \<Rightarrow> OrderFilters \<Rightarrow> Order list \<Rightarrow> Order list" where
  "applyFilters D filters orders0 =
     (let o1 = (case f_status filters of
                  Some s \<Rightarrow> filter (\<lambda>order. o_status order = s) orders0
                | None \<Rightarrow> orders0);
          o2 = (case f_client_phone filters of
                  Some s \<Rightarrow> if s \<noteq> [] then filter (phone_matches s) o1 else o1
                | None \<Rightarrow> o1);
          o3 = (case f_executor_id filters of
                  Some e \<Rightarrow>
                    if e \<noteq> 0 then filter (\<lambda>order. o_executor_id order = Some e) o2 else o2
                | None \<Rightarrow> o2);
          o4 = (case f_date_from filters of
                  Some d \<Rightarrow>
                    if d \<noteq> [] then filter (\<lambda>order. date_ge D (o_delivery_date order) d) o3
                    else o3
                | None \<Rightarrow> o3);
          o5 = (case f_date_to filters of
                  Some d \<Rightarrow>
                    if d \<noteq> [] then filter (\<lambda>order. date_le D (o_delivery_date order) d) o4
                    else o4
                | None \<Rightarrow> o4);
          o6 = (case f_min_price filters of
                  Some lo \<Rightarrow> if lo \<noteq> 0 then filter (price_at_least lo) o5 else o5
                | None \<Rightarrow> o5);
          o7 = (case f_max_price filters of
                  Some hi \<Rightarrow> if hi \<noteq> 0 then filter (price_at_most hi) o6 else o6
                | None \<Rightarrow> o6)
      in o7)"

text \<open>
  The reference predicate for the filter steps: the constraints of the truthy filter
  fields, combined with logical AND.
\<close>

definition matchesFilters :: "date_parser \<Rightarrow> OrderFilters \<Rightarrow> Order \<Rightarrow> bool" where
  "matchesFilters D filters order =
     ((case f_status filters of Some s \<Rightarrow> o_status order = s | None \<Rightarrow> True)
      \<and> (case f_client_phone filters of
            Some s \<Rightarrow> s = [] \<or> phone_matches s order | None \<Rightarrow> True)
      \<and> (case f_executor_id filters of
            Some e \<Rightarrow> e = 0 \<or> o_executor_id order = Some e | None \<Rightarrow> True)
      \<and> (case f_date_from filters of
            Some d \<Rightarrow> d = [] \<or> date_ge D (o_delivery_date order) d | None \<Rightarrow> True)
      \<and> (case f_date_to filters of
            Some d \<Rightarrow> d = [] \<or> date_le D (o_delivery_date order) d | None \<Rightarrow> True)
      \<and> (case f_min_price filters of
            Some lo \<Rightarrow> lo = 0 \<or> price_at_least lo order | None \<Rightarrow> True)
      \<and> (case f_max_price filters of
            Some hi \<Rightarrow> hi = 0 \<or> price_at_most hi order | None \<Rightarrow> True))"

text \<open>
  Reference predicates for single constraints: the order has a price, neither null
  nor 0, within the two bounds, both inclusive; the search string is a substring of
  the phone number of the client or of the recipient.
\<close>

definition priceWithin :: "int \<Rightarrow> int \<Rightarrow> Order \<Rightarrow> bool" where
  "priceWithin lo hi order =
     (case o_total_price order of None \<Rightarrow> False | Some p \<Rightarrow> p \<noteq> 0 \<and> lo \<le> p \<and> p \<le> hi)"

definition phoneContains :: "string \<Rightarrow> Order \<Rightarrow> bool" where
  "phoneContains s order =
     (sublist s (c_phone (o_client order)) \<or> sublist s (c_phone (o_recipient order)))"

text \<open>
  mockApiCall reads the module-level array \<open>mockOrders\<close>; the model takes the array as
  the argument \<open>orders0\<close>, and the source function is the instance at \<open>mockOrders\<close>.
  The simulated network delay has no effect on the result and is left out.
\<close>

definition mockApiCall ::
    "date_parser \<Rightarrow> Order list \<Rightarrow> OrderFilters \<Rightarrow> int \<Rightarrow> int \<Rightarrow> OrderListResponse" where
  "mockApiCall D orders0 filters page pageSize =
     (let filteredOrders = sort_by (byCreatedDesc D) (applyFilters D filters orders0);
          startIndex = (page - 1) * pageSize;
          endIndex = startIndex + pageSize;
          paginatedOrders = js_slice filteredOrders startIndex endIndex
      in \<lparr>resp_orders = paginatedOrders,
          resp_total = int (length filteredOrders),
          resp_page = page,
          resp_page_size = pageSize\<rparr>)"

text \<open>
  The time values of the date strings that occur in the mock data, for evaluating
  mockApiCall on concrete inputs.
\<close>

definition mockDates :: date_parser where
  "mockDates s =
     map_of
       [(''2024-01-15T10:30:00Z'', 1705314600000),
        (''2024-01-20T14:15:00Z'', 1705760100000),
        (''2024-02-01T09:00:00Z'', 1706778000000),
        (''2024-12-17T09:15:00Z'', 1734426900000),
        (''2024-12-18T12:00:00Z'', 1734523200000),
        (''2024-12-19T15:45:00Z'', 1734623100000),
        (''2024-12-20T10:30:00Z'', 1734690600000),
        (''2024-12-23T00:00:00Z'', 1734912000000),
        (''2024-12-24T00:00:00Z'', 1734998400000),
        (''2024-12-25T00:00:00Z'', 1735084800000),
        (''2024-12-26T00:00:00Z'', 1735171200000)] s"

section \<open>List state controller (OrdersList)\<close>

text \<open>
  The component keeps an OrderListState and the list of users. Its effects on the
  outside are the requests it sends through apiService and the notifications it
  shows; both are logged in the model, in order. The text of a notification is
  fixed by its constructor (the order number and status where the source inserts
  them into the text).
\<close>

datatype request =
    GetOrders OrderFilters int int
  | PatchStatus int OrderStatus
  | PatchExecutor int "int option"

datatype notification =
    ErrorLoadOrders
  | SuccessStatusChanged int OrderStatus
  | ErrorStatusChange
  | SuccessExecutorAssigned int
  | SuccessExecutorRemoved int
  | ErrorExecutorChange
  | SuccessRefreshed

record OrdersList =
  state :: OrderListState
  users :: "User list"
  requests :: "request list"
  toasts :: "notification list"

text \<open>
  The backend behind apiService is not part of the repository: the replies of its
  three methods used here are a parameter. None stands for a rejected promise (a
  transport failure, a non-success status or an unreadable body: \<open>request\<close> throws in
  all three cases).
\<close>

record apiService =
  getOrders :: "OrderFilters \<Rightarrow> int \<Rightarrow> int \<Rightarrow> OrderListResponse option"
  updateOrderStatus :: "int \<Rightarrow> OrderStatus \<Rightarrow> Order option"
  updateOrderExecutor :: "int \<Rightarrow> int option \<Rightarrow> Order option"

text \<open>The initial state of the component.\<close>

definition initialState :: OrderListState where
  "initialState =
     \<lparr>st_orders = [], st_loading = True, st_error = None, st_filters = emptyFilters,
      st_pagination = \<lparr>pg_page = 1, pg_page_size = 20, pg_total = 0\<rparr>\<rparr>"

text \<open>The text stored in \<open>error\<close> when a reload fails (in Russian: error loading orders).\<close>

definition loadErrorText :: string where
  "loadErrorText =
     utf8 [208, 158, 209, 136, 208, 184, 208, 177, 208, 186, 208, 176, 32, 208, 183, 208, 176,
           208, 179, 209, 128, 209, 131, 208, 183, 208, 186, 208, 184, 32, 208, 183, 208, 176,
           208, 186, 208, 176, 208, 183, 208, 190, 208, 178]"

text \<open>
  loadOrders in two steps, as the \<^verbatim>\<open>await\<close> splits it: before the request (the
  flag \<open>loading\<close> is set, the error cleared, the request sent) and when the request
  settles (one \<open>setState\<close> on success, one \<open>setState\<close> and a notification on failure).
\<close>

definition loadOrders_begin :: "OrderFilters \<Rightarrow> int \<Rightarrow> int \<Rightarrow> OrdersList \<Rightarrow> OrdersList" where
  "loadOrders_begin filters page pageSize c =
     c\<lparr>state := (state c)\<lparr>st_loading := True, st_error := None\<rparr>,
       requests := requests c @ [GetOrders filters page pageSize]\<rparr>"

definition loadOrders_settle :: "OrderListResponse option \<Rightarrow> OrdersList \<Rightarrow> OrdersList" where
  "loadOrders_settle reply c =
     (case reply of
        Some response \<Rightarrow>
          c\<lparr>state := (state c)
               \<lparr>st_orders := resp_orders response,
                st_pagination :=
                  \<lparr>pg_page = resp_page response,
                   pg_page_size = resp_page_size response,
                   pg_total = resp_total response\<rparr>,
                st_loading := False\<rparr>\<rparr>
      | None \<Rightarrow>
          c\<lparr>state := (state c)\<lparr>st_loading := False, st_error := Some loadErrorText\<rparr>,
            toasts := toasts c @ [ErrorLoadOrders]\<rparr>)"

definition loadOrders ::
    "apiService \<Rightarrow> OrderFilters \<Rightarrow> int \<Rightarrow> int \<Rightarrow> OrdersList \<Rightarrow> OrdersList" where
  "loadOrders api filters page pageSize c =
     loadOrders_settle (getOrders api filters page pageSize)
       (loadOrders_begin filters page pageSize c)"

definition handleFiltersChange :: "apiService \<Rightarrow> OrderFilters \<Rightarrow> OrdersList \<Rightarrow> OrdersList" where
  "handleFiltersChange api newFilters c =
     loadOrders api newFilters 1 (pg_page_size (st_pagination (state c)))
       (c\<lparr>state := (state c)
            \<lparr>st_filters := newFilters,
             st_pagination := (st_pagination (state c))\<lparr>pg_page := 1\<rparr>\<rparr>\<rparr>)"

definition handlePageChange :: "apiService \<Rightarrow> int \<Rightarrow> OrdersList \<Rightarrow> OrdersList" where
  "handlePageChange api page c =
     loadOrders api (st_filters (state c)) page (pg_page_size (st_pagination (state c))) c"

definition handlePageSizeChange :: "apiService \<Rightarrow> int \<Rightarrow> OrdersList \<Rightarrow> OrdersList" where
  "handlePageSizeChange api pageSize c =
     loadOrders api (st_filters (state c)) 1 pageSize c"

definition handleStatusChange ::
    "apiService \<Rightarrow> int \<Rightarrow> OrderStatus \<Rightarrow> OrdersList \<Rightarrow> OrdersList" where
  "handleStatusChange api orderId newStatus c =
     (let c1 = c\<lparr>requests := requests c @ [PatchStatus orderId newStatus]\<rparr>
      in case updateOrderStatus api orderId newStatus of
           Some updated \<Rightarrow>
             c1\<lparr>state := (state c1)
                  \<lparr>st_orders :=
                     map (\<lambda>order. if o_id order = orderId
                                   then order\<lparr>o_status := newStatus\<rparr> else order)
                       (st_orders (state c1))\<rparr>,
                toasts := toasts c1 @ [SuccessStatusChanged orderId newStatus]\<rparr>
         | None \<Rightarrow> c1\<lparr>toasts := toasts c1 @ [ErrorStatusChange]\<rparr>)"

text \<open>
  \<^verbatim>\<open>executorId ? users.find(u => u.id === executorId) || null : null\<close>: no
  executor for null and for 0, else the first user with that id, if any.
\<close>

definition findExecutor :: "User list \<Rightarrow> int option \<Rightarrow> User option" where
  "findExecutor us executorId =
     (case executorId of
        None \<Rightarrow> None
      | Some e \<Rightarrow> if e \<noteq> 0 then find (\<lambda>u. u_id u = e) us else None)"

definition handleExecutorChange ::
    "apiService \<Rightarrow> int \<Rightarrow> int option \<Rightarrow> OrdersList \<Rightarrow> OrdersList" where
  "handleExecutorChange api orderId executorId c =
     (let c1 = c\<lparr>requests := requests c @ [PatchExecutor orderId executorId]\<rparr>
      in case updateOrderExecutor api orderId executorId of
           Some updated \<Rightarrow>
             (let executor = findExecutor (users c1) executorId
              in c1\<lparr>state := (state c1)
                      \<lparr>st_orders :=
                         map (\<lambda>order. if o_id order = orderId
                                       then order\<lparr>o_executor_id := executorId,
                                                  o_executor := executor\<rparr>
                                       else order)
                           (st_orders (state c1))\<rparr>,
                    toasts := toasts c1 @
                      [case executorId of
                         None \<Rightarrow> SuccessExecutorRemoved orderId
                       | Some e \<Rightarrow> if e \<noteq> 0 then SuccessExecutorAssigned orderId
                                   else SuccessExecutorRemoved orderId]\<rparr>)
         | None \<Rightarrow> c1\<lparr>toasts := toasts c1 @ [ErrorExecutorChange]\<rparr>)"

text \<open>
  handleRefresh: the notification is shown as soon as loadOrders has sent its
  request, before the request settles.
\<close>

definition handleRefresh :: "apiService \<Rightarrow> OrdersList \<Rightarrow> OrdersList" where
  "handleRefresh api c =
     (let filters = st_filters (state c);
          page = pg_page (st_pagination (state c));
          pageSize = pg_page_size (st_pagination (state c));
          c1 = loadOrders_begin filters page pageSize c;
          c2 = c1\<lparr>toasts := toasts c1 @ [SuccessRefreshed]\<rparr>
      in loadOrders_settle (getOrders api filters page pageSize) c2)"

text \<open>
  \<^verbatim>\<open>Math.ceil(total / page_size)\<close>. For a page size of 0 the quotient is not a
  finite number (NaN or an infinity): None.
\<close>

definition totalPages :: "OrderListState \<Rightarrow> int option" where
  "totalPages st =
     (let total = pg_total (st_pagination st); pageSize = pg_page_size (st_pagination st)
      in if pageSize = 0 then None else Some (- ((- total) div pageSize)))"

text \<open>
  The pages that the buttons of the pagination control pass to \<open>onPageChange\<close> when
  clicked: the control shows its buttons only for more than one page; the button
  "previous" is disabled on page 1, the button "next" on the last page, an
  ellipsis button always, and every button while loading.
\<close>

definition navTargets :: "int \<Rightarrow> int \<Rightarrow> bool \<Rightarrow> int list" where
  "navTargets currentPage totalPgs loading =
     (if totalPgs > 1 \<and> \<not> loading then
        (if currentPage = 1 then [] else [currentPage - 1])
        @ concretePages (getPageNumbers currentPage totalPgs)
        @ (if currentPage = totalPgs then [] else [currentPage + 1])
      else [])"

text \<open>
  Replies of a backend that is down, and of one that answers a list request with
  mockApiCall and a patch request for a known order with the patched order.
\<close>

definition failingApi :: apiService where
  "failingApi =
     \<lparr>getOrders = (\<lambda>filters page pageSize. None),
      updateOrderStatus = (\<lambda>orderId status. None),
      updateOrderExecutor = (\<lambda>orderId executorId. None)\<rparr>"

definition mockBackend :: apiService where
  "mockBackend =
     \<lparr>getOrders = (\<lambda>filters page pageSize.
        Some (mockApiCall mockDates mockOrders filters page pageSize)),
      updateOrderStatus = (\<lambda>orderId status.
        map_option (\<lambda>order. order\<lparr>o_status := status\<rparr>)
          (find (\<lambda>order. o_id order = orderId) mockOrders)),
      updateOrderExecutor = (\<lambda>orderId executorId.
        map_option (\<lambda>order. order\<lparr>o_executor_id := executorId\<rparr>)
          (find (\<lambda>order. o_id order = orderId) mockOrders))\<rparr>"

section \<open>Example states\<close>

text \<open>
  A settled list of 47 matching orders shown 20 per page (3 pages), on page 1 and on
  page 3, and a list that caches the four mock orders.
\<close>

definition list47 :: OrdersList where
  "list47 =
     \<lparr>state =
        \<lparr>st_orders = [], st_loading = False, st_error = None, st_filters = emptyFilters,
         st_pagination = \<lparr>pg_page = 1, pg_page_size = 20, pg_total = 47\<rparr>\<rparr>,
      users = mockUsers, requests = [], toasts = []\<rparr>"

definition list47_page3 :: OrdersList where
  "list47_page3 =
     list47\<lparr>state := (state list47)
       \<lparr>st_pagination := \<lparr>pg_page = 3, pg_page_size = 20, pg_total = 47\<rparr>\<rparr>\<rparr>"

definition mockList :: OrdersList where
  "mockList =
     \<lparr>state =
        \<lparr>st_orders = mockOrders, st_loading = False, st_error = None,
         st_filters = emptyFilters,
         st_pagination = \<lparr>pg_page = 1, pg_page_size = 20, pg_total = 4\<rparr>\<rparr>,
      users = mockUsers, requests = [], toasts = []\<rparr>"

text \<open>
  Filter objects with only the two price bounds, and with only the phone field; an
  order priced 0 and an order without a price.
\<close>

definition priceFilters :: "int \<Rightarrow> int \<Rightarrow> OrderFilters" where
  "priceFilters lo hi = emptyFilters\<lparr>f_min_price := Some lo, f_max_price := Some hi\<rparr>"

definition phoneFilter :: "string \<Rightarrow> OrderFilters" where
  "phoneFilter s = emptyFilters\<lparr>f_client_phone := Some s\<rparr>"

definition freeOrder :: Order where
  "freeOrder = mockOrder2\<lparr>o_total_price := Some 0\<rparr>"

definition unpricedOrder :: Order where
  "unpricedOrder = mockOrder1\<lparr>o_total_price := None\<rparr>"

text \<open>
  The creation time of an order of the mock data, and the mock orders in another
  order (oldest first, the second order moved to the front).
\<close>

definition mockCreated :: "Order \<Rightarrow> int" where
  "mockCreated order = (case mockDates (o_created_at order) of Some t \<Rightarrow> t | None \<Rightarrow> 0)"

definition shuffledOrders :: "Order list" where
  "shuffledOrders = [mockOrder1, mockOrder3, mockOrder2, mockOrder0]"

section \<open>Properties of the page window calculator\<close>

lemma push_range_upto: "push_range i hi pages = pages @ map PageNum [i..hi]"
proof (induction i hi pages rule: push_range.induct)
  case (1 i hi pages)
  show ?case
  proof (cases "i \<le> hi")
    case True
    then have "[i..hi] = i # [i + 1..hi]"
      by (simp add: upto_rec1)
    with True "1" show ?thesis
      by (subst push_range.simps) simp
  next
    case False
    then show ?thesis
      by (subst push_range.simps) simp
  qed
qed

lemma upto_near_end: "[T - 3..T] = [T - 3, T - 2, T - 1, T::int]"
  by (simp add: upto_rec1)

lemma upto_middle: "[C - 1..C + 1] = [C - 1, C, C + (1::int)]"
  by (simp add: upto_rec1)

lemma upto_near_start: "[1..4] = [1, 2, 3, 4::int]"
  by (simp add: upto_rec1)

lemma getPageNumbers_unfold: "getPageNumbers C T = pageWindowSpec C T"
  unfolding getPageNumbers_def pageWindowSpec_def maxVisible_def push_range_upto
    upto_near_end upto_middle upto_near_start
  by simp

lemma concretePages_map_PageNum: "concretePages (map PageNum ns) = ns"
  by (induction ns) simp_all

text \<open>
  Claim C1. For every total page count \<open>T\<close> and current page \<open>C\<close>, getPageNumbers
  returns the piecewise reference sequence: the pages \<open>1..T\<close> without ellipsis when
  \<open>T \<le> 5\<close> (the empty sequence for \<open>T = 0\<close>, the single page 1 for \<open>T = 1\<close>);
  \<open>1,2,3,4,ellipsis,T\<close> when \<open>T > 5\<close> and \<open>C \<le> 3\<close>; \<open>1,ellipsis,T-3,T-2,T-1,T\<close> when
  \<open>T > 5\<close> and \<open>C \<ge> T-2\<close>; and \<open>1,ellipsis,C-1,C,C+1,ellipsis,T\<close> otherwise.
\<close>

theorem getPageNumbers_piecewise:
  "getPageNumbers C T =
     (if T \<le> 5 then map PageNum [1..T]
      else if C \<le> 3 then
        [PageNum 1, PageNum 2, PageNum 3, PageNum 4, Ellipsis, PageNum T]
      else if C \<ge> T - 2 then
        [PageNum 1, Ellipsis, PageNum (T - 3), PageNum (T - 2), PageNum (T - 1), PageNum T]
      else
        [PageNum 1, Ellipsis, PageNum (C - 1), PageNum C, PageNum (C + 1), Ellipsis, PageNum T])
   \<and> getPageNumbers C 0 = []
   \<and> getPageNumbers C 1 = [PageNum 1]"
proof -
  have "pageWindowSpec C 0 = []"
    by (simp add: pageWindowSpec_def)
  moreover have "pageWindowSpec C 1 = [PageNum 1]"
    by (simp add: pageWindowSpec_def upto_rec1)
  ultimately show ?thesis
    unfolding getPageNumbers_unfold by (simp add: pageWindowSpec_def)
qed

text \<open>
  Claim C2. For \<open>T \<ge> 1\<close> and \<open>1 \<le> C \<le> T\<close>, the concrete page numbers of the
  sequence returned by getPageNumbers are strictly increasing from first to last, so
  none occurs twice (at \<open>T = 6\<close> the near-start window is \<open>1,2,3,4,ellipsis,6\<close>).
\<close>

theorem getPageNumbers_strictly_increasing:
  assumes "1 \<le> T" and "1 \<le> C" and "C \<le> T"
  shows "sorted_wrt (<) (concretePages (getPageNumbers C T))
         \<and> distinct (concretePages (getPageNumbers C T))"
proof -
  have "sorted_wrt (<) (concretePages (pageWindowSpec C T))"
    using assms by (auto simp: pageWindowSpec_def concretePages_map_PageNum)
  then have "sorted_wrt (<) (concretePages (getPageNumbers C T))"
    by (simp add: getPageNumbers_unfold)
  then show ?thesis
    by (simp add: strict_sorted_iff)
qed

theorem getPageNumbers_strictly_increasing_witness:
  "(1::int) \<le> 6 \<and> (1::int) \<le> 3 \<and> (3::int) \<le> 6
   \<and> concretePages (getPageNumbers 3 6) = [1, 2, 3, 4, 6]
   \<and> sorted_wrt (<) (concretePages (getPageNumbers 3 6))
   \<and> distinct (concretePages (getPageNumbers 3 6))"
proof -
  have "concretePages (getPageNumbers 3 6) = [1, 2, 3, 4, 6]"
    by (simp add: getPageNumbers_unfold pageWindowSpec_def)
  with getPageNumbers_strictly_increasing [of 6 3] show ?thesis
    by simp
qed

section \<open>Properties of the list state controller\<close>

lemma requests_loadOrders:
  "requests (loadOrders api filters page pageSize c)
     = requests c @ [GetOrders filters page pageSize]"
  by (simp add: loadOrders_def loadOrders_begin_def loadOrders_settle_def split: option.splits)

lemma loadOrders_success:
  assumes "getOrders api filters page pageSize = Some response"
  shows "state (loadOrders api filters page pageSize c)
           = (state c)\<lparr>st_orders := resp_orders response,
                       st_loading := False,
                       st_error := None,
                       st_pagination :=
                         \<lparr>pg_page = resp_page response,
                          pg_page_size = resp_page_size response,
                          pg_total = resp_total response\<rparr>\<rparr>"
    and "toasts (loadOrders api filters page pageSize c) = toasts c"
  using assms by (simp_all add: loadOrders_def loadOrders_begin_def loadOrders_settle_def)

lemma loadOrders_failure:
  assumes "getOrders api filters page pageSize = None"
  shows "state (loadOrders api filters page pageSize c)
           = (state c)\<lparr>st_loading := False, st_error := Some loadErrorText\<rparr>"
    and "toasts (loadOrders api filters page pageSize c) = toasts c @ [ErrorLoadOrders]"
  using assms by (simp_all add: loadOrders_def loadOrders_begin_def loadOrders_settle_def)

lemma navTargets_in_range:
  assumes "1 \<le> C" and "C \<le> T" and "p \<in> set (navTargets C T loading)"
  shows "1 \<le> p \<and> p \<le> T"
  using assms
  by (auto simp: navTargets_def getPageNumbers_unfold pageWindowSpec_def
      concretePages_map_PageNum split: if_splits)

lemma distinct_key_index:
  assumes "distinct (map key xs)" and "i < length xs" and "j < length xs"
    and "key (xs ! i) = key (xs ! j)"
  shows "i = j"
proof -
  have "map key xs ! i = map key xs ! j"
    using assms(2,3,4) by simp
  moreover have "i < length (map key xs)" and "j < length (map key xs)"
    using assms(2,3) by simp_all
  ultimately show ?thesis
    using assms(1) nth_eq_iff_index_eq by blast
qed

lemma update_matching_frame:
  "length (map (\<lambda>x. if key x = k then upd x else x) xs) = length xs
   \<and> (\<forall>i < length xs.
         map (\<lambda>x. if key x = k then upd x else x) xs ! i
           = (if key (xs ! i) = k then upd (xs ! i) else xs ! i))
   \<and> (distinct (map key xs) \<longrightarrow>
        (\<forall>i < length xs. \<forall>j < length xs.
           map (\<lambda>x. if key x = k then upd x else x) xs ! i \<noteq> xs ! i
           \<and> map (\<lambda>x. if key x = k then upd x else x) xs ! j \<noteq> xs ! j \<longrightarrow> i = j))"
proof (intro conjI allI impI)
  fix i j
  assume d: "distinct (map key xs)" and i: "i < length xs" and j: "j < length xs"
    and ne: "map (\<lambda>x. if key x = k then upd x else x) xs ! i \<noteq> xs ! i
             \<and> map (\<lambda>x. if key x = k then upd x else x) xs ! j \<noteq> xs ! j"
  from i ne have "key (xs ! i) = k" by (auto split: if_splits)
  moreover from j ne have "key (xs ! j) = k" by (auto split: if_splits)
  ultimately show "i = j"
    using distinct_key_index [OF d i j] by simp
qed simp_all

lemma handleStatusChange_success:
  assumes "updateOrderStatus api orderId newStatus = Some updated"
  shows "state (handleStatusChange api orderId newStatus c)
           = (state c)\<lparr>st_orders :=
                map (\<lambda>order. if o_id order = orderId then order\<lparr>o_status := newStatus\<rparr> else order)
                  (st_orders (state c))\<rparr>"
    and "users (handleStatusChange api orderId newStatus c) = users c"
    and "requests (handleStatusChange api orderId newStatus c)
           = requests c @ [PatchStatus orderId newStatus]"
    and "toasts (handleStatusChange api orderId newStatus c)
           = toasts c @ [SuccessStatusChanged orderId newStatus]"
  using assms by (simp_all add: handleStatusChange_def Let_def)

lemma handleExecutorChange_success:
  assumes "updateOrderExecutor api orderId executorId = Some updated"
  shows "state (handleExecutorChange api orderId executorId c)
           = (state c)\<lparr>st_orders :=
                map (\<lambda>order. if o_id order = orderId
                              then order\<lparr>o_executor_id := executorId,
                                         o_executor := findExecutor (users c) executorId\<rparr>
                              else order)
                  (st_orders (state c))\<rparr>"
    and "users (handleExecutorChange api orderId executorId c) = users c"
    and "requests (handleExecutorChange api orderId executorId c)
           = requests c @ [PatchExecutor orderId executorId]"
  using assms by (simp_all add: handleExecutorChange_def Let_def)

lemma mockOrders_ids:
  "o_id mockOrder0 = 1" "o_id mockOrder1 = 2" "o_id mockOrder2 = 3" "o_id mockOrder3 = 4"
  by (simp_all add: mockOrder0_def mockOrder1_def mockOrder2_def mockOrder3_def)

lemma mockUsers_ids: "u_id mockUser0 = 1" "u_id mockUser1 = 2" "u_id mockUser2 = 3"
  by (simp_all add: mockUser0_def mockUser1_def mockUser2_def)

text \<open>
  Claim C3 (as stated, refuted). The claim: change_page(n) with n outside
  \<open>[1, total_pages]\<close> sends no reload request and leaves the state unchanged. On the
  list of 47 orders shown 20 per page (3 pages), handlePageChange with page 4 sends
  the request for page 4, and with a backend that is down it records the error.
\<close>

theorem handlePageChange_out_of_range_counterexample:
  "totalPages (state list47) = Some 3
   \<and> \<not> (1 \<le> (4::int) \<and> (4::int) \<le> 3)
   \<and> requests list47 = []
   \<and> requests (handlePageChange failingApi 4 list47) = [GetOrders emptyFilters 4 20]
   \<and> st_error (state list47) = None
   \<and> st_error (state (handlePageChange failingApi 4 list47)) = Some loadErrorText
   \<and> handlePageChange failingApi 4 list47 \<noteq> list47"
proof -
  have tp: "totalPages (state list47) = Some 3"
    by (simp add: totalPages_def list47_def)
  have rq: "requests (handlePageChange failingApi 4 list47) = [GetOrders emptyFilters 4 20]"
    by (simp add: handlePageChange_def requests_loadOrders list47_def)
  have r0: "requests list47 = []"
    by (simp add: list47_def)
  have e0: "st_error (state list47) = None"
    by (simp add: list47_def)
  have e1: "st_error (state (handlePageChange failingApi 4 list47)) = Some loadErrorText"
    by (simp add: handlePageChange_def loadOrders_failure failingApi_def)
  from rq r0 have "handlePageChange failingApi 4 list47 \<noteq> list47"
    by auto
  with tp rq r0 e0 e1 show ?thesis by simp
qed

text \<open>
  Claim C3 (amended). handlePageChange checks no range: for every \<open>n\<close> it sends one
  reload request for page \<open>n\<close> with the current filters and page size, and the state
  follows the reply as for any reload. Pages out of range are kept out by the
  pagination control: with the current page in \<open>[1, T]\<close>, every page that one of its
  enabled buttons passes on lies in \<open>[1, T]\<close>.
\<close>

theorem handlePageChange_always_reloads:
  "requests (handlePageChange api n c)
     = requests c @ [GetOrders (st_filters (state c)) n (pg_page_size (st_pagination (state c)))]
   \<and> (getOrders api (st_filters (state c)) n (pg_page_size (st_pagination (state c)))
         = Some response \<longrightarrow>
       st_orders (state (handlePageChange api n c)) = resp_orders response
       \<and> pg_page (st_pagination (state (handlePageChange api n c))) = resp_page response)
   \<and> (getOrders api (st_filters (state c)) n (pg_page_size (st_pagination (state c)))
         = None \<longrightarrow>
       st_error (state (handlePageChange api n c)) = Some loadErrorText)
   \<and> (1 \<le> C \<and> C \<le> T \<longrightarrow> (\<forall>p \<in> set (navTargets C T loading). 1 \<le> p \<and> p \<le> T))"
  using navTargets_in_range [of C T]
  by (simp add: handlePageChange_def requests_loadOrders loadOrders_success loadOrders_failure)

theorem handlePageChange_always_reloads_witness:
  "getOrders failingApi (st_filters (state list47)) 2 (pg_page_size (st_pagination (state list47)))
     = None
   \<and> requests (handlePageChange failingApi 2 list47) = [GetOrders emptyFilters 2 20]
   \<and> st_error (state (handlePageChange failingApi 2 list47)) = Some loadErrorText
   \<and> getOrders mockBackend (st_filters (state list47)) 2
         (pg_page_size (st_pagination (state list47)))
       = Some (mockApiCall mockDates mockOrders emptyFilters 2 20)
   \<and> st_orders (state (handlePageChange mockBackend 2 list47))
       = resp_orders (mockApiCall mockDates mockOrders emptyFilters 2 20)
   \<and> pg_page (st_pagination (state (handlePageChange mockBackend 2 list47))) = 2
   \<and> (1::int) \<le> 2 \<and> (2::int) \<le> 3
   \<and> navTargets 2 3 False = [1, 1, 2, 3, 3]
   \<and> set (navTargets 2 3 False) \<subseteq> {1..3}"
proof -
  have none: "getOrders failingApi (st_filters (state list47)) 2
      (pg_page_size (st_pagination (state list47))) = None"
    by (simp add: failingApi_def)
  have some: "getOrders mockBackend (st_filters (state list47)) 2
      (pg_page_size (st_pagination (state list47)))
      = Some (mockApiCall mockDates mockOrders emptyFilters 2 20)"
    by (simp add: mockBackend_def list47_def)
  have nav: "navTargets 2 3 False = [1, 1, 2, 3, 3]"
    by (simp add: navTargets_def getPageNumbers_unfold pageWindowSpec_def upto_rec1)
  from handlePageChange_always_reloads [of failingApi 2 list47 _ 2 3 False] none
  have a: "requests (handlePageChange failingApi 2 list47) = [GetOrders emptyFilters 2 20]"
    and b: "st_error (state (handlePageChange failingApi 2 list47)) = Some loadErrorText"
    and c: "\<forall>p \<in> set (navTargets 2 3 False). 1 \<le> p \<and> p \<le> 3"
    by (simp_all add: list47_def)
  from handlePageChange_always_reloads [of mockBackend 2 list47 _ 2 3 False] some
  have d: "st_orders (state (handlePageChange mockBackend 2 list47))
      = resp_orders (mockApiCall mockDates mockOrders emptyFilters 2 20)"
    and e: "pg_page (st_pagination (state (handlePageChange mockBackend 2 list47))) = 2"
    by (simp_all add: mockApiCall_def Let_def)
  from none some nav a b c d e show ?thesis
    by auto
qed

text \<open>
  Claim C4. For every reload request of loadOrders: when the request succeeds, the
  cached records become the response's records and the pagination fields the
  response's page, page size and total, in one state update, and the error is
  clear; when it fails, the cached records and the pagination fields stay as they
  were and an error is recorded. Sending the request changes neither.
\<close>

theorem loadOrders_snapshot_replace:
  "(getOrders api filters page pageSize = Some response \<longrightarrow>
      st_orders (state (loadOrders api filters page pageSize c)) = resp_orders response
      \<and> st_pagination (state (loadOrders api filters page pageSize c))
          = \<lparr>pg_page = resp_page response, pg_page_size = resp_page_size response,
             pg_total = resp_total response\<rparr>
      \<and> st_error (state (loadOrders api filters page pageSize c)) = None
      \<and> st_loading (state (loadOrders api filters page pageSize c)) = False
      \<and> toasts (loadOrders api filters page pageSize c) = toasts c)
   \<and> (getOrders api filters page pageSize = None \<longrightarrow>
      st_orders (state (loadOrders api filters page pageSize c)) = st_orders (state c)
      \<and> st_pagination (state (loadOrders api filters page pageSize c))
          = st_pagination (state c)
      \<and> st_error (state (loadOrders api filters page pageSize c)) = Some loadErrorText
      \<and> st_loading (state (loadOrders api filters page pageSize c)) = False
      \<and> toasts (loadOrders api filters page pageSize c) = toasts c @ [ErrorLoadOrders])
   \<and> st_orders (state (loadOrders_begin filters page pageSize c)) = st_orders (state c)
   \<and> st_pagination (state (loadOrders_begin filters page pageSize c))
       = st_pagination (state c)"
  by (simp add: loadOrders_success loadOrders_failure) (simp add: loadOrders_begin_def)

theorem loadOrders_snapshot_replace_witness:
  "getOrders mockBackend emptyFilters 1 20
     = Some (mockApiCall mockDates mockOrders emptyFilters 1 20)
   \<and> st_orders (state (loadOrders mockBackend emptyFilters 1 20 list47))
       = resp_orders (mockApiCall mockDates mockOrders emptyFilters 1 20)
   \<and> st_pagination (state (loadOrders mockBackend emptyFilters 1 20 list47))
       = \<lparr>pg_page = 1, pg_page_size = 20,
          pg_total = resp_total (mockApiCall mockDates mockOrders emptyFilters 1 20)\<rparr>
   \<and> st_error (state (loadOrders mockBackend emptyFilters 1 20 list47)) = None
   \<and> getOrders failingApi emptyFilters 2 20 = None
   \<and> st_orders (state (loadOrders failingApi emptyFilters 2 20 mockList)) = mockOrders
   \<and> st_pagination (state (loadOrders failingApi emptyFilters 2 20 mockList))
       = \<lparr>pg_page = 1, pg_page_size = 20, pg_total = 4\<rparr>
   \<and> st_error (state (loadOrders failingApi emptyFilters 2 20 mockList)) = Some loadErrorText"
proof -
  have ok: "getOrders mockBackend emptyFilters 1 20
      = Some (mockApiCall mockDates mockOrders emptyFilters 1 20)"
    by (simp add: mockBackend_def)
  have ko: "getOrders failingApi emptyFilters 2 20 = None"
    by (simp add: failingApi_def)
  from loadOrders_snapshot_replace [of mockBackend emptyFilters 1 20 _ list47] ok
  have a: "st_orders (state (loadOrders mockBackend emptyFilters 1 20 list47))
             = resp_orders (mockApiCall mockDates mockOrders emptyFilters 1 20)
           \<and> st_pagination (state (loadOrders mockBackend emptyFilters 1 20 list47))
             = \<lparr>pg_page = 1, pg_page_size = 20,
                pg_total = resp_total (mockApiCall mockDates mockOrders emptyFilters 1 20)\<rparr>
           \<and> st_error (state (loadOrders mockBackend emptyFilters 1 20 list47)) = None"
    by (simp add: mockApiCall_def Let_def)
  from loadOrders_snapshot_replace [of failingApi emptyFilters 2 20 undefined mockList] ko
  have b: "st_orders (state (loadOrders failingApi emptyFilters 2 20 mockList)) = mockOrders
           \<and> st_pagination (state (loadOrders failingApi emptyFilters 2 20 mockList))
             = \<lparr>pg_page = 1, pg_page_size = 20, pg_total = 4\<rparr>
           \<and> st_error (state (loadOrders failingApi emptyFilters 2 20 mockList))
             = Some loadErrorText"
    by (simp add: mockList_def)
  from ok ko a b show ?thesis
    by simp
qed

text \<open>
  Claim C5. When the update request succeeds, handleStatusChange changes only the
  status, and handleExecutorChange only the executor reference (the executor id and
  the executor looked up for it), of the cached records whose id is the given one:
  the list keeps its length, a record with another id is the same as before, a
  record with this id is the old one with that field replaced, and when ids are
  distinct at most one record differs from before. The rest of the state and the
  users are unchanged, and the only request sent is the update itself, no reload.
\<close>

theorem edit_success_frame:
  "(updateOrderStatus api orderId newStatus = Some updated \<longrightarrow>
      (let c' = handleStatusChange api orderId newStatus c;
           old = st_orders (state c);
           new = st_orders (state c')
       in length new = length old
          \<and> (\<forall>i < length old.
                new ! i = (if o_id (old ! i) = orderId
                           then (old ! i)\<lparr>o_status := newStatus\<rparr> else old ! i))
          \<and> (distinct (map o_id old) \<longrightarrow>
               (\<forall>i < length old. \<forall>j < length old.
                  new ! i \<noteq> old ! i \<and> new ! j \<noteq> old ! j \<longrightarrow> i = j))
          \<and> state c' = (state c)\<lparr>st_orders := new\<rparr>
          \<and> users c' = users c
          \<and> requests c' = requests c @ [PatchStatus orderId newStatus]))
   \<and> (updateOrderExecutor api orderId executorId = Some updated' \<longrightarrow>
      (let c' = handleExecutorChange api orderId executorId c;
           old = st_orders (state c);
           new = st_orders (state c')
       in length new = length old
          \<and> (\<forall>i < length old.
                new ! i = (if o_id (old ! i) = orderId
                           then (old ! i)\<lparr>o_executor_id := executorId,
                                          o_executor := findExecutor (users c) executorId\<rparr>
                           else old ! i))
          \<and> (distinct (map o_id old) \<longrightarrow>
               (\<forall>i < length old. \<forall>j < length old.
                  new ! i \<noteq> old ! i \<and> new ! j \<noteq> old ! j \<longrightarrow> i = j))
          \<and> state c' = (state c)\<lparr>st_orders := new\<rparr>
          \<and> users c' = users c
          \<and> requests c' = requests c @ [PatchExecutor orderId executorId]))"
proof (intro conjI impI)
  assume ok: "updateOrderStatus api orderId newStatus = Some updated"
  show "let c' = handleStatusChange api orderId newStatus c;
           old = st_orders (state c);
           new = st_orders (state c')
       in length new = length old
          \<and> (\<forall>i < length old.
                new ! i = (if o_id (old ! i) = orderId
                           then (old ! i)\<lparr>o_status := newStatus\<rparr> else old ! i))
          \<and> (distinct (map o_id old) \<longrightarrow>
               (\<forall>i < length old. \<forall>j < length old.
                  new ! i \<noteq> old ! i \<and> new ! j \<noteq> old ! j \<longrightarrow> i = j))
          \<and> state c' = (state c)\<lparr>st_orders := new\<rparr>
          \<and> users c' = users c
          \<and> requests c' = requests c @ [PatchStatus orderId newStatus]"
    unfolding Let_def handleStatusChange_success [OF ok]
    using update_matching_frame [of o_id orderId _ "st_orders (state c)"]
    by simp
next
  assume ok: "updateOrderExecutor api orderId executorId = Some updated'"
  show "let c' = handleExecutorChange api orderId executorId c;
           old = st_orders (state c);
           new = st_orders (state c')
       in length new = length old
          \<and> (\<forall>i < length old.
                new ! i = (if o_id (old ! i) = orderId
                           then (old ! i)\<lparr>o_executor_id := executorId,
                                          o_executor := findExecutor (users c) executorId\<rparr>
                           else old ! i))
          \<and> (distinct (map o_id old) \<longrightarrow>
               (\<forall>i < length old. \<forall>j < length old.
                  new ! i \<noteq> old ! i \<and> new ! j \<noteq> old ! j \<longrightarrow> i = j))
          \<and> state c' = (state c)\<lparr>st_orders := new\<rparr>
          \<and> users c' = users c
          \<and> requests c' = requests c @ [PatchExecutor orderId executorId]"
    unfolding Let_def handleExecutorChange_success [OF ok]
    using update_matching_frame [of o_id orderId _ "st_orders (state c)"]
    by simp
qed

theorem edit_success_frame_witness:
  "updateOrderStatus mockBackend 2 READY = Some (mockOrder1\<lparr>o_status := READY\<rparr>)
   \<and> distinct (map o_id (st_orders (state mockList)))
   \<and> st_orders (state (handleStatusChange mockBackend 2 READY mockList))
       = [mockOrder0, mockOrder1\<lparr>o_status := READY\<rparr>, mockOrder2, mockOrder3]
   \<and> requests (handleStatusChange mockBackend 2 READY mockList) = [PatchStatus 2 READY]
   \<and> updateOrderExecutor mockBackend 2 (Some 3)
       = Some (mockOrder1\<lparr>o_executor_id := Some 3\<rparr>)
   \<and> st_orders (state (handleExecutorChange mockBackend 2 (Some 3) mockList))
       = [mockOrder0, mockOrder1\<lparr>o_executor_id := Some 3, o_executor := Some mockUser2\<rparr>,
          mockOrder2, mockOrder3]
   \<and> requests (handleExecutorChange mockBackend 2 (Some 3) mockList)
       = [PatchExecutor 2 (Some 3)]"
proof -
  have ok1: "updateOrderStatus mockBackend 2 READY = Some (mockOrder1\<lparr>o_status := READY\<rparr>)"
    by (simp add: mockBackend_def mockOrders_def mockOrders_ids)
  have ok2: "updateOrderExecutor mockBackend 2 (Some 3)
      = Some (mockOrder1\<lparr>o_executor_id := Some 3\<rparr>)"
    by (simp add: mockBackend_def mockOrders_def mockOrders_ids)
  have old: "st_orders (state mockList) = [mockOrder0, mockOrder1, mockOrder2, mockOrder3]"
    by (simp add: mockList_def mockOrders_def)
  have d: "distinct (map o_id (st_orders (state mockList)))"
    by (simp add: old mockOrders_ids)
  have ex: "findExecutor (users mockList) (Some 3) = Some mockUser2"
    by (simp add: findExecutor_def mockList_def mockUsers_def mockUsers_ids)
  have rq: "requests mockList = []"
    by (simp add: mockList_def)
  note frame = edit_success_frame [of mockBackend 2 READY _ mockList "Some 3", unfolded Let_def]
  from frame ok1 old
  have s: "st_orders (state (handleStatusChange mockBackend 2 READY mockList))
      = [mockOrder0, mockOrder1\<lparr>o_status := READY\<rparr>, mockOrder2, mockOrder3]"
    by (simp add: list_eq_iff_nth_eq less_Suc_eq mockOrders_ids all_conj_distrib)
  from frame ok1 rq
  have sr: "requests (handleStatusChange mockBackend 2 READY mockList) = [PatchStatus 2 READY]"
    by simp
  from frame ok2 old ex
  have e: "st_orders (state (handleExecutorChange mockBackend 2 (Some 3) mockList))
      = [mockOrder0, mockOrder1\<lparr>o_executor_id := Some 3, o_executor := Some mockUser2\<rparr>,
         mockOrder2, mockOrder3]"
    by (simp add: list_eq_iff_nth_eq less_Suc_eq mockOrders_ids all_conj_distrib)
  from frame ok2 rq
  have er: "requests (handleExecutorChange mockBackend 2 (Some 3) mockList)
      = [PatchExecutor 2 (Some 3)]"
    by simp
  from ok1 ok2 d s sr e er show ?thesis
    by simp
qed

text \<open>
  Claim C6. When the update request of handleStatusChange or handleExecutorChange
  fails, the whole cached state (records, filters, pagination, error, loading) and
  the users are as before, and the failure is shown as an error notification.
\<close>

theorem edit_failure_untouched:
  "(updateOrderStatus api orderId newStatus = None \<longrightarrow>
      state (handleStatusChange api orderId newStatus c) = state c
      \<and> users (handleStatusChange api orderId newStatus c) = users c
      \<and> toasts (handleStatusChange api orderId newStatus c) = toasts c @ [ErrorStatusChange])
   \<and> (updateOrderExecutor api orderId executorId = None \<longrightarrow>
      state (handleExecutorChange api orderId executorId c) = state c
      \<and> users (handleExecutorChange api orderId executorId c) = users c
      \<and> toasts (handleExecutorChange api orderId executorId c)
          = toasts c @ [ErrorExecutorChange])"
  by (simp add: handleStatusChange_def handleExecutorChange_def Let_def)

theorem edit_failure_untouched_witness:
  "updateOrderStatus failingApi 2 READY = None
   \<and> state (handleStatusChange failingApi 2 READY mockList) = state mockList
   \<and> toasts (handleStatusChange failingApi 2 READY mockList) = [ErrorStatusChange]
   \<and> updateOrderExecutor failingApi 2 None = None
   \<and> state (handleExecutorChange failingApi 2 None mockList) = state mockList
   \<and> toasts (handleExecutorChange failingApi 2 None mockList) = [ErrorExecutorChange]"
proof -
  have ko1: "updateOrderStatus failingApi 2 READY = None"
    and ko2: "updateOrderExecutor failingApi 2 None = None"
    by (simp_all add: failingApi_def)
  have t0: "toasts mockList = []"
    by (simp add: mockList_def)
  from edit_failure_untouched [of failingApi 2 READY mockList None] ko1 ko2 t0
  show ?thesis
    by simp
qed

text \<open>
  Claim C7 (as stated, refuted). The claim: after change_page_size(size) the current
  page is 1 whether the reload succeeds or fails. On page 3 of the list of 47 orders,
  handlePageSizeChange with size 50 and a backend that is down sends the request for
  page 1 with size 50, and the state stays on page 3 with page size 20.
\<close>

theorem handlePageSizeChange_failed_reload_counterexample:
  "pg_page (st_pagination (state list47_page3)) = 3
   \<and> requests (handlePageSizeChange failingApi 50 list47_page3)
       = [GetOrders emptyFilters 1 50]
   \<and> pg_page (st_pagination (state (handlePageSizeChange failingApi 50 list47_page3))) = 3
   \<and> pg_page (st_pagination (state (handlePageSizeChange failingApi 50 list47_page3))) \<noteq> 1
   \<and> pg_page_size (st_pagination (state (handlePageSizeChange failingApi 50 list47_page3)))
       = 20"
  by (simp add: handlePageSizeChange_def requests_loadOrders loadOrders_failure failingApi_def
      list47_page3_def list47_def)

text \<open>
  Claim C7 (amended). After handleFiltersChange the active filters are the given
  criteria and a reload of page 1 has been requested; the current page is 1 when
  that reload fails, and the page of the response when it succeeds. handlePageSizeChange
  requests a reload of page 1 with the new size; the current page and the page size
  become those of the response when the reload succeeds and stay as they were when
  it fails.
\<close>

theorem filters_and_page_size_reset:
  "st_filters (state (handleFiltersChange api criteria c)) = criteria
   \<and> requests (handleFiltersChange api criteria c)
       = requests c @ [GetOrders criteria 1 (pg_page_size (st_pagination (state c)))]
   \<and> (getOrders api criteria 1 (pg_page_size (st_pagination (state c))) = None \<longrightarrow>
        pg_page (st_pagination (state (handleFiltersChange api criteria c))) = 1)
   \<and> (getOrders api criteria 1 (pg_page_size (st_pagination (state c))) = Some response \<longrightarrow>
        pg_page (st_pagination (state (handleFiltersChange api criteria c)))
          = resp_page response)
   \<and> requests (handlePageSizeChange api pageSize c)
       = requests c @ [GetOrders (st_filters (state c)) 1 pageSize]
   \<and> (getOrders api (st_filters (state c)) 1 pageSize = Some response' \<longrightarrow>
        pg_page (st_pagination (state (handlePageSizeChange api pageSize c)))
          = resp_page response'
        \<and> pg_page_size (st_pagination (state (handlePageSizeChange api pageSize c)))
          = resp_page_size response')
   \<and> (getOrders api (st_filters (state c)) 1 pageSize = None \<longrightarrow>
        st_pagination (state (handlePageSizeChange api pageSize c)) = st_pagination (state c))"
proof -
  have "st_filters (state (handleFiltersChange api criteria c)) = criteria"
    by (cases "getOrders api criteria 1 (pg_page_size (st_pagination (state c)))")
      (simp_all add: handleFiltersChange_def loadOrders_success loadOrders_failure)
  then show ?thesis
    by (simp add: handleFiltersChange_def handlePageSizeChange_def requests_loadOrders
        loadOrders_success loadOrders_failure)
qed

theorem filters_and_page_size_reset_witness:
  "getOrders failingApi (emptyFilters\<lparr>f_status := Some READY\<rparr>) 1 20 = None
   \<and> st_filters (state (handleFiltersChange failingApi (emptyFilters\<lparr>f_status := Some READY\<rparr>)
        list47_page3)) = emptyFilters\<lparr>f_status := Some READY\<rparr>
   \<and> pg_page (st_pagination (state (handleFiltersChange failingApi
        (emptyFilters\<lparr>f_status := Some READY\<rparr>) list47_page3))) = 1
   \<and> getOrders mockBackend (emptyFilters\<lparr>f_status := Some READY\<rparr>) 1 20
       = Some (mockApiCall mockDates mockOrders (emptyFilters\<lparr>f_status := Some READY\<rparr>) 1 20)
   \<and> pg_page (st_pagination (state (handleFiltersChange mockBackend
        (emptyFilters\<lparr>f_status := Some READY\<rparr>) list47_page3))) = 1
   \<and> getOrders mockBackend emptyFilters 1 50
       = Some (mockApiCall mockDates mockOrders emptyFilters 1 50)
   \<and> pg_page (st_pagination (state (handlePageSizeChange mockBackend 50 list47_page3))) = 1
   \<and> pg_page_size (st_pagination (state (handlePageSizeChange mockBackend 50 list47_page3)))
       = 50
   \<and> getOrders failingApi emptyFilters 1 50 = None
   \<and> st_pagination (state (handlePageSizeChange failingApi 50 list47_page3))
       = \<lparr>pg_page = 3, pg_page_size = 20, pg_total = 47\<rparr>"
proof -
  have ko: "getOrders failingApi f p s = None" for f p s
    by (simp add: failingApi_def)
  have ok: "getOrders mockBackend f p s = Some (mockApiCall mockDates mockOrders f p s)"
    for f p s
    by (simp add: mockBackend_def)
  have st: "st_filters (state list47_page3) = emptyFilters"
    "st_pagination (state list47_page3) = \<lparr>pg_page = 3, pg_page_size = 20, pg_total = 47\<rparr>"
    by (simp_all add: list47_page3_def list47_def)
  from filters_and_page_size_reset
    [of failingApi "emptyFilters\<lparr>f_status := Some READY\<rparr>" list47_page3 _ 50 _] ko st
  have a: "st_filters (state (handleFiltersChange failingApi
        (emptyFilters\<lparr>f_status := Some READY\<rparr>) list47_page3))
        = emptyFilters\<lparr>f_status := Some READY\<rparr>
      \<and> pg_page (st_pagination (state (handleFiltersChange failingApi
        (emptyFilters\<lparr>f_status := Some READY\<rparr>) list47_page3))) = 1
      \<and> st_pagination (state (handlePageSizeChange failingApi 50 list47_page3))
        = \<lparr>pg_page = 3, pg_page_size = 20, pg_total = 47\<rparr>"
    by simp
  from filters_and_page_size_reset
    [of mockBackend "emptyFilters\<lparr>f_status := Some READY\<rparr>" list47_page3 _ 50 _] ok st
  have b: "pg_page (st_pagination (state (handleFiltersChange mockBackend
        (emptyFilters\<lparr>f_status := Some READY\<rparr>) list47_page3))) = 1
      \<and> pg_page (st_pagination (state (handlePageSizeChange mockBackend 50 list47_page3)))
        = 1
      \<and> pg_page_size (st_pagination (state (handlePageSizeChange mockBackend 50
          list47_page3))) = 50"
    by (simp add: mockApiCall_def Let_def)
  from ko ok a b show ?thesis
    by simp
qed

section \<open>Properties of the mock order query\<close>

lemma str_includes_sublist: "str_includes t s \<longleftrightarrow> sublist s t"
  by (induction t) (auto simp: sublist_Cons_right)

lemma set_insert_by: "set (insert_by cmp x xs) = insert x (set xs)"
  by (induction xs) auto

lemma length_insert_by: "length (insert_by cmp x xs) = Suc (length xs)"
  by (induction xs) auto

lemma mset_insert_by: "mset (insert_by cmp x xs) = add_mset x (mset xs)"
  by (induction xs) auto

lemma set_sort_by: "set (sort_by cmp xs) = set xs"
  by (induction xs) (simp_all add: sort_by_def set_insert_by)

lemma length_sort_by: "length (sort_by cmp xs) = length xs"
  by (induction xs) (simp_all add: sort_by_def length_insert_by)

lemma mset_sort_by: "mset (sort_by cmp xs) = mset xs"
  by (induction xs) (simp_all add: sort_by_def mset_insert_by)

text \<open>
  When every creation date parses, the model's sort is the stable sort by descending
  creation time: its result is ordered newest first, and orders created at the same
  time keep their order.
\<close>

lemma insert_by_insort_key:
  assumes "D (o_created_at x) = Some (created x)"
    and "\<forall>y \<in> set ys. D (o_created_at y) = Some (created y)"
  shows "insert_by (byCreatedDesc D) x ys = insort_key (\<lambda>order. - created order) x ys"
  using assms by (induction ys) (auto simp: byCreatedDesc_def)

lemma sort_by_sort_key:
  assumes "\<forall>x \<in> set xs. D (o_created_at x) = Some (created x)"
  shows "sort_by (byCreatedDesc D) xs = sort_key (\<lambda>order. - created order) xs"
  using assms
proof (induction xs)
  case Nil
  then show ?case by (simp add: sort_by_def)
next
  case (Cons x xs)
  then have ih: "sort_by (byCreatedDesc D) xs = sort_key (\<lambda>order. - created order) xs"
    by simp
  have "sort_by (byCreatedDesc D) (x # xs)
      = insert_by (byCreatedDesc D) x (sort_by (byCreatedDesc D) xs)"
    by (simp add: sort_by_def)
  also have "\<dots> = insort_key (\<lambda>order. - created order) x (sort_by (byCreatedDesc D) xs)"
    using Cons.prems by (intro insert_by_insort_key) (simp_all add: set_sort_by)
  finally show ?case
    by (simp add: ih)
qed

lemma sort_by_newest_first:
  assumes "\<forall>x \<in> set xs. D (o_created_at x) = Some (created x)"
  shows "sorted_wrt (\<lambda>a b. created b \<le> created a) (sort_by (byCreatedDesc D) xs)"
proof -
  have "sorted (map (\<lambda>order. - created order) (sort_key (\<lambda>order. - created order) xs))"
    by (rule sorted_sort_key)
  then show ?thesis
    by (simp add: sort_by_sort_key [OF assms] sorted_map)
qed

lemma sort_by_stable:
  assumes "\<forall>x \<in> set xs. D (o_created_at x) = Some (created x)"
  shows "filter (\<lambda>order. created order = t) (sort_by (byCreatedDesc D) xs)
           = filter (\<lambda>order. created order = t) xs"
proof -
  have "filter (\<lambda>order. - created order = - t) (sort_key (\<lambda>order. - created order) xs)
      = filter (\<lambda>order. - created order = - t) xs"
    by (rule sort_key_stable)
  then show ?thesis
    by (simp add: sort_by_sort_key [OF assms])
qed

lemma set_js_slice: "set (js_slice xs a b) \<subseteq> set xs"
proof -
  have "set (take n (drop k xs)) \<subseteq> set xs" for n k
    by (meson set_take_subset set_drop_subset subset_trans)
  then show ?thesis
    by (simp add: js_slice_def Let_def)
qed

lemma sorted_wrt_js_slice:
  assumes "sorted_wrt P xs"
  shows "sorted_wrt P (js_slice xs a b)"
  using assms by (simp add: js_slice_def Let_def sorted_wrt_take sorted_wrt_drop)

lemma js_slice_whole:
  assumes "int (length xs) \<le> n"
  shows "js_slice xs 0 n = xs"
  using assms by (simp add: js_slice_def Let_def min_def)

lemma js_slice_window:
  assumes "0 \<le> s" and "0 \<le> n"
  shows "js_slice xs s (s + n) = take (nat n) (drop (nat s) xs)"
proof (cases "int (length xs) \<le> s")
  case True
  with assms show ?thesis
    by (simp add: js_slice_def Let_def min_def)
next
  case False
  show ?thesis
  proof (cases "s + n \<le> int (length xs)")
    case True
    with False assms show ?thesis
      by (simp add: js_slice_def Let_def min_def)
  next
    case over: False
    with False assms have "length (drop (nat s) xs) \<le> nat n"
      by simp
    then have "take (nat n) (drop (nat s) xs) = drop (nat s) xs"
      by (rule take_all)
    moreover from over False assms
    have "js_slice xs s (s + n) = take (length xs - nat s) (drop (nat s) xs)"
      by (simp add: js_slice_def Let_def min_def nat_diff_distrib)
    ultimately show ?thesis
      by simp
  qed
qed

lemma filter_step_always:
  "(case v of Some x \<Rightarrow> filter (Q x) xs | None \<Rightarrow> xs)
     = filter (\<lambda>y. case v of Some x \<Rightarrow> Q x y | None \<Rightarrow> True) xs"
  by (cases v) simp_all

lemma filter_step_truthy:
  "(case v of Some x \<Rightarrow> if x \<noteq> z then filter (Q x) xs else xs | None \<Rightarrow> xs)
     = filter (\<lambda>y. case v of Some x \<Rightarrow> x = z \<or> Q x y | None \<Rightarrow> True) xs"
  by (cases v) simp_all

lemma applyFilters_filter: "applyFilters D f os = filter (matchesFilters D f) os"
  unfolding applyFilters_def Let_def filter_step_always filter_step_truthy filter_filter
  by (rule filter_cong) (auto simp: matchesFilters_def)

lemma applyFilters_emptyFilters: "applyFilters D emptyFilters os = os"
  by (simp add: applyFilters_filter matchesFilters_def emptyFilters_def)

lemma applyFilters_price_split:
  assumes "f_min_price f = Some lo" and "f_max_price f = Some hi" and "lo \<noteq> 0" and "hi \<noteq> 0"
  shows "applyFilters D f os
           = filter (priceWithin lo hi)
               (applyFilters D (f\<lparr>f_min_price := None, f_max_price := None\<rparr>) os)"
  unfolding applyFilters_filter filter_filter
  using assms
  by (intro filter_cong)
    (auto simp: matchesFilters_def priceWithin_def price_at_least_def price_at_most_def
      split: option.splits)

lemma applyFilters_phone_split:
  assumes "f_client_phone f = Some s" and "s \<noteq> []"
  shows "applyFilters D f os
           = filter (phoneContains s) (applyFilters D (f\<lparr>f_client_phone := None\<rparr>) os)"
  unfolding applyFilters_filter filter_filter
  using assms
  by (intro filter_cong)
    (auto simp: matchesFilters_def phoneContains_def phone_matches_def str_includes_sublist)

text \<open>What mockApiCall returns, in terms of the orders that pass the filter steps.\<close>

lemma mockApiCall_orders_subset:
  "set (resp_orders (mockApiCall D os f page pageSize))
     \<subseteq> {order \<in> set os. matchesFilters D f order}"
proof -
  have "set (resp_orders (mockApiCall D os f page pageSize))
      \<subseteq> set (sort_by (byCreatedDesc D) (applyFilters D f os))"
    by (simp add: mockApiCall_def Let_def set_js_slice)
  then show ?thesis
    by (simp add: set_sort_by applyFilters_filter)
qed

lemma mockApiCall_total:
  "resp_total (mockApiCall D os f page pageSize) = int (length (applyFilters D f os))"
  by (simp add: mockApiCall_def Let_def length_sort_by)

lemma mockApiCall_returns_matched:
  "set (resp_orders (mockApiCall D os f page pageSize)) \<subseteq> set (applyFilters D f os)"
  using mockApiCall_orders_subset [of D os f page pageSize]
  by (auto simp: applyFilters_filter)

lemma mockApiCall_first_page_all:
  assumes "int (length os) \<le> pageSize"
  shows "mset (resp_orders (mockApiCall D os f 1 pageSize)) = mset (applyFilters D f os)"
proof -
  have "length (applyFilters D f os) \<le> length os"
    by (simp add: applyFilters_filter)
  then have "int (length (applyFilters D f os)) \<le> int (length os)"
    by simp
  with assms have "int (length (sort_by (byCreatedDesc D) (applyFilters D f os))) \<le> pageSize"
    unfolding length_sort_by by linarith
  then have "resp_orders (mockApiCall D os f 1 pageSize)
      = sort_by (byCreatedDesc D) (applyFilters D f os)"
    by (simp add: mockApiCall_def Let_def js_slice_whole)
  then show ?thesis
    by (simp add: mset_sort_by)
qed

lemma applyFilters_parse:
  assumes "\<forall>order \<in> set os. D (o_created_at order) = Some (created order)"
  shows "\<forall>order \<in> set (applyFilters D f os). D (o_created_at order) = Some (created order)"
  using assms by (simp add: applyFilters_filter)

lemma mockApiCall_newest_first:
  assumes "\<forall>order \<in> set os. D (o_created_at order) = Some (created order)"
  shows "sorted_wrt (\<lambda>a b. created b \<le> created a)
           (resp_orders (mockApiCall D os f page pageSize))"
  using sort_by_newest_first [OF applyFilters_parse [OF assms]]
  by (simp add: mockApiCall_def Let_def sorted_wrt_js_slice)

lemma mockApiCall_page:
  assumes "\<forall>order \<in> set os. D (o_created_at order) = Some (created order)"
    and "1 \<le> page" and "0 \<le> pageSize"
  shows "resp_orders (mockApiCall D os f page pageSize)
           = take (nat pageSize) (drop (nat ((page - 1) * pageSize))
               (sort_key (\<lambda>order. - created order) (applyFilters D f os)))"
proof -
  from assms(2,3) have "0 \<le> (page - 1) * pageSize"
    by simp
  from js_slice_window [OF this assms(3)] show ?thesis
    by (simp add: mockApiCall_def Let_def sort_by_sort_key [OF applyFilters_parse [OF assms(1)]])
qed

lemma mockOrders_prices:
  "o_total_price mockOrder0 = Some 15000" "o_total_price mockOrder1 = Some 25000"
  "o_total_price mockOrder2 = Some 8000" "o_total_price mockOrder3 = Some 12000"
  by (simp_all add: mockOrder0_def mockOrder1_def mockOrder2_def mockOrder3_def)

lemma mockOrders_status:
  "o_status mockOrder0 = NEW" "o_status mockOrder1 = IN_PROGRESS"
  "o_status mockOrder2 = READY" "o_status mockOrder3 = DELIVERED"
  by (simp_all add: mockOrder0_def mockOrder1_def mockOrder2_def mockOrder3_def)

lemma mockOrders_created:
  "mockDates (o_created_at mockOrder0) = Some 1734690600000"
  "mockDates (o_created_at mockOrder1) = Some 1734623100000"
  "mockDates (o_created_at mockOrder2) = Some 1734523200000"
  "mockDates (o_created_at mockOrder3) = Some 1734426900000"
  by (simp_all add: mockOrder0_def mockOrder1_def mockOrder2_def mockOrder3_def mockDates_def)

lemma mockCreated_values:
  "mockCreated mockOrder0 = 1734690600000" "mockCreated mockOrder1 = 1734623100000"
  "mockCreated mockOrder2 = 1734523200000" "mockCreated mockOrder3 = 1734426900000"
  by (simp_all add: mockCreated_def mockOrders_created)

lemma mockOrders_parse:
  "\<forall>order \<in> set mockOrders. mockDates (o_created_at order) = Some (mockCreated order)"
  "\<forall>order \<in> set shuffledOrders. mockDates (o_created_at order) = Some (mockCreated order)"
  by (simp_all add: mockOrders_def shuffledOrders_def mockOrders_created mockCreated_values)

lemma mockOrders_phones:
  "c_phone (o_client mockOrder0) = ''+77012345678''"
  "c_phone (o_recipient mockOrder0) = ''+77087654321''"
  "c_phone (o_client mockOrder1) = ''+77087654321''"
  "c_phone (o_recipient mockOrder1) = ''+77051234567''"
  "c_phone (o_client mockOrder2) = ''+77051234567''"
  "c_phone (o_recipient mockOrder2) = ''+77051234567''"
  "c_phone (o_client mockOrder3) = ''+77012345678''"
  "c_phone (o_recipient mockOrder3) = ''+77012345678''"
  by (simp_all add: mockOrder0_def mockOrder1_def mockOrder2_def mockOrder3_def
      mockClient0_def mockClient1_def mockClient2_def)

lemma mockOrders_differ:
  "mockOrder0 \<noteq> mockOrder1" "mockOrder0 \<noteq> mockOrder2" "mockOrder0 \<noteq> mockOrder3"
  "mockOrder1 \<noteq> mockOrder2" "mockOrder1 \<noteq> mockOrder3" "mockOrder2 \<noteq> mockOrder3"
proof -
  have "o_id a \<noteq> o_id b \<Longrightarrow> a \<noteq> b" for a b :: Order
    by auto
  then show "mockOrder0 \<noteq> mockOrder1" "mockOrder0 \<noteq> mockOrder2" "mockOrder0 \<noteq> mockOrder3"
    "mockOrder1 \<noteq> mockOrder2" "mockOrder1 \<noteq> mockOrder3" "mockOrder2 \<noteq> mockOrder3"
    by (simp_all add: mockOrders_ids)
qed

lemma mock_phone_8765:
  "phone_matches ''8765'' mockOrder0" "phone_matches ''8765'' mockOrder1"
  "\<not> phone_matches ''8765'' mockOrder2" "\<not> phone_matches ''8765'' mockOrder3"
  by (simp_all add: phone_matches_def mockOrders_phones)

text \<open>
  Claim C8 (as stated, refuted). The claim: with both price bounds set, mockApiCall
  returns exactly the records whose price \<open>p\<close> satisfies \<open>min_price \<le> p \<le> max_price\<close>.
  An order priced 0 lies within the bounds 0 and 20000, and within -1 and 20000, and
  is returned for neither filter. And of the two mock orders priced within 10000 and
  20000, a call with page size 1 returns only the first.
\<close>

theorem mockApiCall_price_zero_counterexample:
  "f_min_price (priceFilters 0 20000) = Some 0
   \<and> f_max_price (priceFilters 0 20000) = Some 20000
   \<and> o_total_price freeOrder = Some 0
   \<and> (0::int) \<le> 0 \<and> (0::int) \<le> 20000
   \<and> resp_orders (mockApiCall mockDates [freeOrder] (priceFilters 0 20000) 1 20) = []
   \<and> resp_total (mockApiCall mockDates [freeOrder] (priceFilters 0 20000) 1 20) = 0
   \<and> f_min_price (priceFilters (- 1) 20000) = Some (- 1)
   \<and> f_max_price (priceFilters (- 1) 20000) = Some 20000
   \<and> (- 1::int) \<le> 0
   \<and> resp_orders (mockApiCall mockDates [freeOrder] (priceFilters (- 1) 20000) 1 20) = []
   \<and> resp_total (mockApiCall mockDates [freeOrder] (priceFilters (- 1) 20000) 1 20) = 0
   \<and> o_total_price mockOrder3 = Some 12000
   \<and> mockOrder3 \<in> set mockOrders
   \<and> resp_orders (mockApiCall mockDates mockOrders (priceFilters 10000 20000) 1 1)
       = [mockOrder0]
   \<and> mockOrder3 \<notin> set (resp_orders
        (mockApiCall mockDates mockOrders (priceFilters 10000 20000) 1 1))"
proof -
  have zero: "f_min_price (priceFilters 0 20000) = Some 0
      \<and> f_max_price (priceFilters 0 20000) = Some 20000
      \<and> o_total_price freeOrder = Some 0
      \<and> resp_orders (mockApiCall mockDates [freeOrder] (priceFilters 0 20000) 1 20) = []
      \<and> resp_total (mockApiCall mockDates [freeOrder] (priceFilters 0 20000) 1 20) = 0
      \<and> f_min_price (priceFilters (- 1) 20000) = Some (- 1)
      \<and> f_max_price (priceFilters (- 1) 20000) = Some 20000
      \<and> resp_orders (mockApiCall mockDates [freeOrder] (priceFilters (- 1) 20000) 1 20) = []
      \<and> resp_total (mockApiCall mockDates [freeOrder] (priceFilters (- 1) 20000) 1 20) = 0"
    by (simp add: mockApiCall_def Let_def applyFilters_def priceFilters_def emptyFilters_def
        freeOrder_def price_at_least_def price_at_most_def sort_by_def js_slice_def)
  have flt: "applyFilters mockDates (priceFilters 10000 20000) mockOrders
      = [mockOrder0, mockOrder3]"
    by (simp add: applyFilters_def Let_def priceFilters_def emptyFilters_def mockOrders_def
        price_at_least_def price_at_most_def mockOrders_prices)
  have page: "resp_orders (mockApiCall mockDates mockOrders (priceFilters 10000 20000) 1 1)
      = [mockOrder0]"
    by (simp add: mockApiCall_def Let_def flt sort_by_def byCreatedDesc_def mockOrders_created
        js_slice_def)
  have mem: "mockOrder3 \<in> set mockOrders"
    by (simp add: mockOrders_def)
  from zero page mem show ?thesis
    by (simp add: mockOrders_prices mockOrders_differ mockOrders_differ [symmetric])
qed

text \<open>
  Claim C8 (amended). For a filter whose \<open>min_price\<close> and \<open>max_price\<close> are both set
  and non-zero, whatever its other fields: the orders that mockApiCall matches are
  exactly those, among the orders that pass the other filter fields, that have a
  price \<open>p\<close>, neither null nor 0, with \<open>min_price \<le> p \<le> max_price\<close>, both bounds
  inclusive. \<open>total\<close> is their number and every returned order is one of them; page 1
  with a page size of at least the number of records returns all of them. When every
  creation date parses, the returned orders are ordered newest first, and the call
  for page \<open>n \<ge> 1\<close> returns the \<open>n\<close>-th run of page-size many of the matched orders in
  the stable order by descending creation time. When the two bounds are the only
  fields set, the other fields let every order pass; for a positive \<open>min_price\<close> the
  matched orders are those with \<open>min_price \<le> p \<le> max_price\<close>.
\<close>

theorem mockApiCall_price_range:
  assumes "f_min_price filters = Some lo" and "f_max_price filters = Some hi"
    and "lo \<noteq> 0" and "hi \<noteq> 0"
  shows
    "let others = applyFilters D (filters\<lparr>f_min_price := None, f_max_price := None\<rparr>) os;
         matched = filter (priceWithin lo hi) others;
         r = mockApiCall D os filters page pageSize
     in applyFilters D filters os = matched
        \<and> resp_total r = int (length matched)
        \<and> set (resp_orders r) \<subseteq> set matched
        \<and> (page = 1 \<and> int (length os) \<le> pageSize \<longrightarrow> mset (resp_orders r) = mset matched)
        \<and> ((\<forall>order \<in> set os. D (o_created_at order) = Some (created order)) \<longrightarrow>
              sorted_wrt (\<lambda>a b. created b \<le> created a) (resp_orders r)
              \<and> (1 \<le> page \<and> 0 \<le> pageSize \<longrightarrow>
                    resp_orders r
                      = take (nat pageSize) (drop (nat ((page - 1) * pageSize))
                          (sort_key (\<lambda>order. - created order) matched))))
        \<and> (filters = priceFilters lo hi \<longrightarrow> others = os)
        \<and> (0 < lo \<longrightarrow>
              matched = filter (\<lambda>order. \<exists>p. o_total_price order = Some p \<and> lo \<le> p \<and> p \<le> hi)
                          others)"
proof -
  define others where
    "others = applyFilters D (filters\<lparr>f_min_price := None, f_max_price := None\<rparr>) os"
  define matched where "matched = filter (priceWithin lo hi) others"
  define r where "r = mockApiCall D os filters page pageSize"
  have split: "applyFilters D filters os = matched"
    unfolding matched_def others_def by (rule applyFilters_price_split [OF assms])
  have total: "resp_total r = int (length matched)"
    unfolding r_def by (simp add: mockApiCall_total split)
  have sub: "set (resp_orders r) \<subseteq> set matched"
    unfolding r_def using mockApiCall_returns_matched [of D os filters page pageSize]
    by (simp add: split)
  have all: "mset (resp_orders r) = mset matched"
    if "page = 1" and "int (length os) \<le> pageSize"
    unfolding r_def using mockApiCall_first_page_all [OF that(2), of D filters] that(1)
    by (simp add: split)
  have newest: "sorted_wrt (\<lambda>a b. created b \<le> created a) (resp_orders r)"
    if "\<forall>order \<in> set os. D (o_created_at order) = Some (created order)"
    unfolding r_def by (rule mockApiCall_newest_first [OF that])
  have nth_page: "resp_orders r
      = take (nat pageSize) (drop (nat ((page - 1) * pageSize))
          (sort_key (\<lambda>order. - created order) matched))"
    if "\<forall>order \<in> set os. D (o_created_at order) = Some (created order)"
      and "1 \<le> page" and "0 \<le> pageSize"
    unfolding r_def using mockApiCall_page [OF that, of filters] by (simp add: split)
  have only: "others = os" if "filters = priceFilters lo hi"
  proof -
    from that have "filters\<lparr>f_min_price := None, f_max_price := None\<rparr> = emptyFilters"
      by (simp add: priceFilters_def emptyFilters_def)
    then show ?thesis
      unfolding others_def by (simp add: applyFilters_emptyFilters)
  qed
  have pos: "matched
      = filter (\<lambda>order. \<exists>p. o_total_price order = Some p \<and> lo \<le> p \<and> p \<le> hi) others"
    if "0 < lo"
    unfolding matched_def using that
    by (intro filter_cong) (auto simp: priceWithin_def split: option.splits)
  from split total sub all newest nth_page only pos
  have "applyFilters D filters os = matched
        \<and> resp_total r = int (length matched)
        \<and> set (resp_orders r) \<subseteq> set matched
        \<and> (page = 1 \<and> int (length os) \<le> pageSize \<longrightarrow> mset (resp_orders r) = mset matched)
        \<and> ((\<forall>order \<in> set os. D (o_created_at order) = Some (created order)) \<longrightarrow>
              sorted_wrt (\<lambda>a b. created b \<le> created a) (resp_orders r)
              \<and> (1 \<le> page \<and> 0 \<le> pageSize \<longrightarrow>
                    resp_orders r
                      = take (nat pageSize) (drop (nat ((page - 1) * pageSize))
                          (sort_key (\<lambda>order. - created order) matched))))
        \<and> (filters = priceFilters lo hi \<longrightarrow> others = os)
        \<and> (0 < lo \<longrightarrow>
              matched = filter (\<lambda>order. \<exists>p. o_total_price order = Some p \<and> lo \<le> p \<and> p \<le> hi)
                          others)"
    by blast
  then show ?thesis
    unfolding Let_def others_def matched_def r_def .
qed

theorem mockApiCall_price_range_witness:
  "f_min_price (priceFilters 10000 20000) = Some 10000
   \<and> f_max_price (priceFilters 10000 20000) = Some 20000
   \<and> (10000::int) \<noteq> 0 \<and> (20000::int) \<noteq> 0 \<and> (0::int) < 10000
   \<and> int (length mockOrders) \<le> 20
   \<and> map o_total_price mockOrders = [Some 15000, Some 25000, Some 8000, Some 12000]
   \<and> resp_orders (mockApiCall mockDates mockOrders (priceFilters 10000 20000) 1 20)
       = [mockOrder0, mockOrder3]
   \<and> resp_total (mockApiCall mockDates mockOrders (priceFilters 10000 20000) 1 20) = 2
   \<and> map o_total_price shuffledOrders = [Some 25000, Some 12000, Some 8000, Some 15000]
   \<and> resp_orders (mockApiCall mockDates shuffledOrders (priceFilters 10000 20000) 1 20)
       = [mockOrder0, mockOrder3]
   \<and> resp_orders (mockApiCall mockDates shuffledOrders (priceFilters 10000 20000) 2 1)
       = [mockOrder3]
   \<and> f_min_price ((priceFilters 10000 30000)\<lparr>f_status := Some IN_PROGRESS\<rparr>) = Some 10000
   \<and> f_max_price ((priceFilters 10000 30000)\<lparr>f_status := Some IN_PROGRESS\<rparr>) = Some 30000
   \<and> resp_orders (mockApiCall mockDates shuffledOrders
        ((priceFilters 10000 30000)\<lparr>f_status := Some IN_PROGRESS\<rparr>) 1 20) = [mockOrder1]"
proof -
  have lo: "f_min_price (priceFilters 10000 20000) = Some 10000"
    and hi: "f_max_price (priceFilters 10000 20000) = Some 20000"
    and lo': "f_min_price ((priceFilters 10000 30000)\<lparr>f_status := Some IN_PROGRESS\<rparr>)
      = Some 10000"
    and hi': "f_max_price ((priceFilters 10000 30000)\<lparr>f_status := Some IN_PROGRESS\<rparr>)
      = Some 30000"
    by (simp_all add: priceFilters_def)
  have nz: "(10000::int) \<noteq> 0" "(20000::int) \<noteq> 0" "(30000::int) \<noteq> 0"
    by simp_all
  have len: "int (length mockOrders) \<le> 20"
    by (simp add: mockOrders_def)
  have prices: "map o_total_price mockOrders = [Some 15000, Some 25000, Some 8000, Some 12000]"
    "map o_total_price shuffledOrders = [Some 25000, Some 12000, Some 8000, Some 15000]"
    by (simp_all add: mockOrders_def shuffledOrders_def mockOrders_prices)
  have within: "filter (priceWithin 10000 20000) mockOrders = [mockOrder0, mockOrder3]"
    "filter (priceWithin 10000 20000) shuffledOrders = [mockOrder3, mockOrder0]"
    by (simp_all add: mockOrders_def shuffledOrders_def priceWithin_def mockOrders_prices)
  have status: "applyFilters mockDates
      ((priceFilters 10000 30000)\<lparr>f_status := Some IN_PROGRESS, f_min_price := None,
         f_max_price := None\<rparr>) shuffledOrders = [mockOrder1]"
    by (simp add: applyFilters_def Let_def priceFilters_def emptyFilters_def shuffledOrders_def
        mockOrders_status)
  note a = mockApiCall_price_range [OF lo hi nz(1,2), of mockDates mockOrders 1 20 mockCreated,
      unfolded Let_def]
  note b = mockApiCall_price_range [OF lo hi nz(1,2), of mockDates shuffledOrders 1 20
      mockCreated, unfolded Let_def]
  note c = mockApiCall_price_range [OF lo hi nz(1,2), of mockDates shuffledOrders 2 1
      mockCreated, unfolded Let_def]
  note d = mockApiCall_price_range [OF lo' hi' nz(1,3), of mockDates shuffledOrders 1 20
      mockCreated, unfolded Let_def]
  from a mockOrders_parse(1)
  have ra: "resp_orders (mockApiCall mockDates mockOrders (priceFilters 10000 20000) 1 20)
      = [mockOrder0, mockOrder3]"
    and ta: "resp_total (mockApiCall mockDates mockOrders (priceFilters 10000 20000) 1 20) = 2"
    by (simp_all add: within mockCreated_values)
  from b mockOrders_parse(2)
  have rb: "resp_orders (mockApiCall mockDates shuffledOrders (priceFilters 10000 20000) 1 20)
      = [mockOrder0, mockOrder3]"
    by (simp add: within mockCreated_values)
  from c mockOrders_parse(2)
  have rc: "resp_orders (mockApiCall mockDates shuffledOrders (priceFilters 10000 20000) 2 1)
      = [mockOrder3]"
    by (simp add: within mockCreated_values)
  from d mockOrders_parse(2)
  have rd: "resp_orders (mockApiCall mockDates shuffledOrders
      ((priceFilters 10000 30000)\<lparr>f_status := Some IN_PROGRESS\<rparr>) 1 20) = [mockOrder1]"
    by (simp add: status priceWithin_def mockOrders_prices)
  from lo hi lo' hi' len prices ra ta rb rc rd show ?thesis
    by simp
qed

text \<open>
  Claim C9. When \<open>min_price\<close> or \<open>max_price\<close> is set to a non-zero value, no order
  whose price is null is in the result of mockApiCall, whatever the other filter
  fields, the page and the page size: the price filter also removes the orders
  without a price.
\<close>

theorem mockApiCall_price_filter_drops_unpriced:
  assumes "(f_min_price filters = Some m \<and> m \<noteq> 0) \<or> (f_max_price filters = Some m \<and> m \<noteq> 0)"
    and "o_total_price order = None"
  shows "order \<notin> set (resp_orders (mockApiCall D os filters page pageSize))"
proof
  assume "order \<in> set (resp_orders (mockApiCall D os filters page pageSize))"
  with mockApiCall_orders_subset [of D os filters page pageSize]
  have "matchesFilters D filters order"
    by auto
  with assms show False
    by (auto simp: matchesFilters_def price_at_least_def price_at_most_def)
qed

theorem mockApiCall_price_filter_drops_unpriced_witness:
  "f_max_price (emptyFilters\<lparr>f_max_price := Some 20000\<rparr>) = Some 20000
   \<and> (20000::int) \<noteq> 0
   \<and> o_total_price unpricedOrder = None
   \<and> unpricedOrder \<notin> set (resp_orders
        (mockApiCall mockDates [unpricedOrder, mockOrder0]
           (emptyFilters\<lparr>f_max_price := Some 20000\<rparr>) 1 20))"
proof -
  have a: "f_max_price (emptyFilters\<lparr>f_max_price := Some 20000\<rparr>) = Some 20000"
    by simp
  have b: "o_total_price unpricedOrder = None"
    by (simp add: unpricedOrder_def)
  from a have c: "(f_min_price (emptyFilters\<lparr>f_max_price := Some 20000\<rparr>) = Some 20000
        \<and> (20000::int) \<noteq> 0)
      \<or> (f_max_price (emptyFilters\<lparr>f_max_price := Some 20000\<rparr>) = Some 20000
        \<and> (20000::int) \<noteq> 0)"
    by simp
  from mockApiCall_price_filter_drops_unpriced [OF c b] a b show ?thesis
    by simp
qed

text \<open>
  Claim C10 (as stated, refuted). The claim: for a non-empty phone filter string
  \<open>s\<close>, mockApiCall returns an order if and only if \<open>s\<close> is a substring of the
  client's or of the recipient's phone number. The string 8765 occurs in the phone
  numbers of the first two mock orders; a call with page size 1 returns only the
  first, and a call that also filters by the status "in progress" returns only the
  second.
\<close>

theorem mockApiCall_phone_filter_counterexample:
  "''8765'' \<noteq> []
   \<and> f_client_phone (phoneFilter ''8765'') = Some ''8765''
   \<and> mockOrder0 \<in> set mockOrders \<and> mockOrder1 \<in> set mockOrders
   \<and> str_includes (c_phone (o_recipient mockOrder0)) ''8765''
   \<and> str_includes (c_phone (o_client mockOrder1)) ''8765''
   \<and> resp_orders (mockApiCall mockDates mockOrders (phoneFilter ''8765'') 1 1) = [mockOrder0]
   \<and> mockOrder1 \<notin> set (resp_orders (mockApiCall mockDates mockOrders (phoneFilter ''8765'') 1 1))
   \<and> f_client_phone ((phoneFilter ''8765'')\<lparr>f_status := Some IN_PROGRESS\<rparr>) = Some ''8765''
   \<and> resp_orders (mockApiCall mockDates mockOrders
        ((phoneFilter ''8765'')\<lparr>f_status := Some IN_PROGRESS\<rparr>) 1 20) = [mockOrder1]
   \<and> mockOrder0 \<notin> set (resp_orders (mockApiCall mockDates mockOrders
        ((phoneFilter ''8765'')\<lparr>f_status := Some IN_PROGRESS\<rparr>) 1 20))"
proof -
  have mem: "mockOrder0 \<in> set mockOrders" "mockOrder1 \<in> set mockOrders"
    by (simp_all add: mockOrders_def)
  have inc: "str_includes (c_phone (o_recipient mockOrder0)) ''8765''"
    "str_includes (c_phone (o_client mockOrder1)) ''8765''"
    by (simp_all add: mockOrders_phones)
  have f1: "applyFilters mockDates (phoneFilter ''8765'') mockOrders = [mockOrder0, mockOrder1]"
    by (simp add: applyFilters_def Let_def phoneFilter_def emptyFilters_def mockOrders_def
        mock_phone_8765)
  have f2: "applyFilters mockDates ((phoneFilter ''8765'')\<lparr>f_status := Some IN_PROGRESS\<rparr>)
      mockOrders = [mockOrder1]"
    by (simp add: applyFilters_def Let_def phoneFilter_def emptyFilters_def mockOrders_def
        mock_phone_8765 mockOrders_status)
  have p1: "resp_orders (mockApiCall mockDates mockOrders (phoneFilter ''8765'') 1 1)
      = [mockOrder0]"
    by (simp add: mockApiCall_def Let_def f1 sort_by_def byCreatedDesc_def mockOrders_created
        js_slice_def)
  have p2: "resp_orders (mockApiCall mockDates mockOrders
      ((phoneFilter ''8765'')\<lparr>f_status := Some IN_PROGRESS\<rparr>) 1 20) = [mockOrder1]"
    by (simp add: mockApiCall_def Let_def f2 sort_by_def js_slice_def)
  from mem inc p1 p2 show ?thesis
    by (simp add: phoneFilter_def mockOrders_differ mockOrders_differ [symmetric])
qed

text \<open>
  Claim C10 (amended). For a filter whose \<open>client_phone\<close> is a non-empty string \<open>s\<close>,
  whatever its other fields: the orders that mockApiCall matches are exactly those,
  among the orders that pass the other filter fields, for which \<open>s\<close> is a substring
  of the client's phone number or of the recipient's (the filter matches both
  parties, not only the client). \<open>total\<close> is their number and every returned order
  is one of them; page 1 with a page size of at least the number of records returns
  all of them. When every creation date parses, the returned orders are ordered
  newest first, and the call for page \<open>n \<ge> 1\<close> returns the \<open>n\<close>-th run of page-size
  many of the matched orders in the stable order by descending creation time. When
  \<open>client_phone\<close> is the only field set, the other fields let every order pass.
\<close>

theorem mockApiCall_phone_filter:
  assumes "f_client_phone filters = Some s" and "s \<noteq> []"
  shows
    "let others = applyFilters D (filters\<lparr>f_client_phone := None\<rparr>) os;
         matched = filter (\<lambda>order. sublist s (c_phone (o_client order))
                                   \<or> sublist s (c_phone (o_recipient order))) others;
         r = mockApiCall D os filters page pageSize
     in applyFilters D filters os = matched
        \<and> resp_total r = int (length matched)
        \<and> set (resp_orders r) \<subseteq> set matched
        \<and> (page = 1 \<and> int (length os) \<le> pageSize \<longrightarrow> mset (resp_orders r) = mset matched)
        \<and> ((\<forall>order \<in> set os. D (o_created_at order) = Some (created order)) \<longrightarrow>
              sorted_wrt (\<lambda>a b. created b \<le> created a) (resp_orders r)
              \<and> (1 \<le> page \<and> 0 \<le> pageSize \<longrightarrow>
                    resp_orders r
                      = take (nat pageSize) (drop (nat ((page - 1) * pageSize))
                          (sort_key (\<lambda>order. - created order) matched))))
        \<and> (filters = phoneFilter s \<longrightarrow> others = os)"
proof -
  define others where "others = applyFilters D (filters\<lparr>f_client_phone := None\<rparr>) os"
  define matched where
    "matched = filter (\<lambda>order. sublist s (c_phone (o_client order))
                              \<or> sublist s (c_phone (o_recipient order))) others"
  define r where "r = mockApiCall D os filters page pageSize"
  have pc: "phoneContains s = (\<lambda>order. sublist s (c_phone (o_client order))
      \<or> sublist s (c_phone (o_recipient order)))"
    by (intro ext) (simp add: phoneContains_def)
  have split: "applyFilters D filters os = matched"
    unfolding matched_def others_def pc [symmetric] by (rule applyFilters_phone_split [OF assms])
  have total: "resp_total r = int (length matched)"
    unfolding r_def by (simp add: mockApiCall_total split)
  have sub: "set (resp_orders r) \<subseteq> set matched"
    unfolding r_def using mockApiCall_returns_matched [of D os filters page pageSize]
    by (simp add: split)
  have all: "mset (resp_orders r) = mset matched"
    if "page = 1" and "int (length os) \<le> pageSize"
    unfolding r_def using mockApiCall_first_page_all [OF that(2), of D filters] that(1)
    by (simp add: split)
  have newest: "sorted_wrt (\<lambda>a b. created b \<le> created a) (resp_orders r)"
    if "\<forall>order \<in> set os. D (o_created_at order) = Some (created order)"
    unfolding r_def by (rule mockApiCall_newest_first [OF that])
  have nth_page: "resp_orders r
      = take (nat pageSize) (drop (nat ((page - 1) * pageSize))
          (sort_key (\<lambda>order. - created order) matched))"
    if "\<forall>order \<in> set os. D (o_created_at order) = Some (created order)"
      and "1 \<le> page" and "0 \<le> pageSize"
    unfolding r_def using mockApiCall_page [OF that, of filters] by (simp add: split)
  have only: "others = os" if "filters = phoneFilter s"
  proof -
    from that have "filters\<lparr>f_client_phone := None\<rparr> = emptyFilters"
      by (simp add: phoneFilter_def emptyFilters_def)
    then show ?thesis
      unfolding others_def by (simp add: applyFilters_emptyFilters)
  qed
  from split total sub all newest nth_page only
  have "applyFilters D filters os = matched
        \<and> resp_total r = int (length matched)
        \<and> set (resp_orders r) \<subseteq> set matched
        \<and> (page = 1 \<and> int (length os) \<le> pageSize \<longrightarrow> mset (resp_orders r) = mset matched)
        \<and> ((\<forall>order \<in> set os. D (o_created_at order) = Some (created order)) \<longrightarrow>
              sorted_wrt (\<lambda>a b. created b \<le> created a) (resp_orders r)
              \<and> (1 \<le> page \<and> 0 \<le> pageSize \<longrightarrow>
                    resp_orders r
                      = take (nat pageSize) (drop (nat ((page - 1) * pageSize))
                          (sort_key (\<lambda>order. - created order) matched))))
        \<and> (filters = phoneFilter s \<longrightarrow> others = os)"
    by blast
  then show ?thesis
    unfolding Let_def others_def matched_def r_def .
qed

theorem mockApiCall_phone_filter_witness:
  "f_client_phone (phoneFilter ''8765'') = Some ''8765'' \<and> ''8765'' \<noteq> []
   \<and> int (length shuffledOrders) \<le> 20
   \<and> \<not> sublist ''8765'' (c_phone (o_client mockOrder0))
   \<and> sublist ''8765'' (c_phone (o_recipient mockOrder0))
   \<and> sublist ''8765'' (c_phone (o_client mockOrder1))
   \<and> resp_orders (mockApiCall mockDates shuffledOrders (phoneFilter ''8765'') 1 20)
       = [mockOrder0, mockOrder1]
   \<and> resp_total (mockApiCall mockDates shuffledOrders (phoneFilter ''8765'') 1 20) = 2
   \<and> resp_orders (mockApiCall mockDates shuffledOrders (phoneFilter ''8765'') 2 1)
       = [mockOrder1]
   \<and> f_client_phone ((phoneFilter ''8765'')\<lparr>f_status := Some NEW\<rparr>) = Some ''8765''
   \<and> resp_orders (mockApiCall mockDates shuffledOrders
        ((phoneFilter ''8765'')\<lparr>f_status := Some NEW\<rparr>) 1 20) = [mockOrder0]"
proof -
  have fp: "f_client_phone (phoneFilter ''8765'') = Some ''8765''"
    and fp': "f_client_phone ((phoneFilter ''8765'')\<lparr>f_status := Some NEW\<rparr>) = Some ''8765''"
    by (simp_all add: phoneFilter_def)
  have ne: "''8765'' \<noteq> []"
    by simp
  have len: "int (length shuffledOrders) \<le> 20"
    by (simp add: shuffledOrders_def)
  have sub: "\<not> sublist ''8765'' (c_phone (o_client mockOrder0))"
    "sublist ''8765'' (c_phone (o_recipient mockOrder0))"
    "sublist ''8765'' (c_phone (o_client mockOrder1))"
    "\<not> sublist ''8765'' (c_phone (o_client mockOrder2))"
    "\<not> sublist ''8765'' (c_phone (o_recipient mockOrder2))"
    "\<not> sublist ''8765'' (c_phone (o_client mockOrder3))"
    "\<not> sublist ''8765'' (c_phone (o_recipient mockOrder3))"
    unfolding str_includes_sublist [symmetric] by (simp_all add: mockOrders_phones)
  have status: "applyFilters mockDates
      ((phoneFilter ''8765'')\<lparr>f_status := Some NEW, f_client_phone := None\<rparr>) shuffledOrders
      = [mockOrder0]"
    by (simp add: applyFilters_def Let_def phoneFilter_def emptyFilters_def shuffledOrders_def
        mockOrders_status)
  note a = mockApiCall_phone_filter [OF fp ne, of mockDates shuffledOrders 1 20 mockCreated,
      unfolded Let_def]
  note b = mockApiCall_phone_filter [OF fp ne, of mockDates shuffledOrders 2 1 mockCreated,
      unfolded Let_def]
  note c = mockApiCall_phone_filter [OF fp' ne, of mockDates shuffledOrders 1 20 mockCreated,
      unfolded Let_def]
  from a mockOrders_parse(2)
  have ra: "resp_orders (mockApiCall mockDates shuffledOrders (phoneFilter ''8765'') 1 20)
      = [mockOrder0, mockOrder1]"
    and ta: "resp_total (mockApiCall mockDates shuffledOrders (phoneFilter ''8765'') 1 20) = 2"
    by (simp_all add: shuffledOrders_def sub mockCreated_values)
  from b mockOrders_parse(2)
  have rb: "resp_orders (mockApiCall mockDates shuffledOrders (phoneFilter ''8765'') 2 1)
      = [mockOrder1]"
    by (simp add: shuffledOrders_def sub mockCreated_values)
  from c mockOrders_parse(2)
  have rc: "resp_orders (mockApiCall mockDates shuffledOrders
      ((phoneFilter ''8765'')\<lparr>f_status := Some NEW\<rparr>) 1 20) = [mockOrder0]"
    by (simp add: status sub)
  from fp fp' len sub ra ta rb rc show ?thesis
    by simp
qed

end
